theory Spec2Isabelle
  imports Main "HOL-Library.Word"
begin

section \<open>The jsonnetfmt command line front end (cmd/jsonnetfmt.cpp)\<close>

text \<open>
  The program parses its argument vector into a \<open>JsonnetConfig\<close>, configuring the
  formatting engine on the way (\<open>process_args\<close>), and then formats its inputs in one
  of three modes (\<open>main\<close>). Everything the program does to the outside is made
  explicit: the calls it makes are appended to a trace, the file system and the standard
  streams behind \<open>read_input\<close> and \<open>write_output_file\<close> are a world value that is
  passed along, and a call of a helper that throws is a value of \<open>outcome\<close>.
\<close>

subsection \<open>Data\<close>

text \<open>\<open>struct JsonnetConfig\<close>, with the constructor's initial values.\<close>

record JsonnetConfig =
  inputFiles :: "string list"
  outputFile :: string
  filenameIsCode :: bool
  fmtInPlace :: bool
  fmtTest :: bool

definition JsonnetConfig_init :: JsonnetConfig where
  "JsonnetConfig_init =
     \<lparr>inputFiles = [], outputFile = [], filenameIsCode = False,
      fmtInPlace = False, fmtTest = False\<rparr>"

datatype ArgStatus = ARG_CONTINUE | ARG_SUCCESS | ARG_FAILURE

text \<open>\<open>long\<close>, as \<open>strtol_check\<close> returns it (64 bits, two's complement).\<close>

type_synonym long = "64 word"

text \<open>
  The engine handle \<open>JsonnetVm *\<close> is opaque to this program: it is only ever passed to
  the \<open>jsonnet_fmt_*\<close> setters and to \<open>jsonnet_fmt_snippet\<close>. Its state is
  represented by the setter calls made on it so far, in order.
\<close>

datatype fmt_option =
    FmtIndent long
  | FmtMaxBlankLines long
  | FmtComment char
  | FmtString char
  | FmtPadArrays bool
  | FmtPadObjects bool
  | FmtPrettyFieldNames bool
  | FmtSortImports bool
  | FmtDebugDesugaring bool

type_synonym JsonnetVm = "fmt_option list"

text \<open>
  What the process does, in order. \<open>Usage\<close> and \<open>Version\<close> stand for the texts that
  \<open>usage(o)\<close> and \<open>version(o)\<close> print (they contain \<open>jsonnet_version()\<close>);
  \<open>Print\<close> carries the text written by the program itself.
\<close>

datatype stream = Stdout | Stderr

datatype event =
    Make
  | Destroy
  | Realloc
  | Usage stream
  | Version stream
  | Print stream string
  | ReadInput bool string
  | FmtSnippet string string
  | WriteOutputFile string string

text \<open>
  The three handlers of \<open>main\<close> distinguish \<open>std::bad_alloc\<close>, any other
  \<open>std::exception\<close> (with its \<open>what()\<close>), and everything else. A call of a C++ helper
  either returns or throws.
\<close>

datatype exn = bad_alloc | std_exception string | unknown_exception

datatype 'a outcome = Returns 'a | Throws exn

text \<open>
  The helpers declared in \<open>utils.h\<close> and the engine's formatting operation are taken as
  parameters; \<open>'w\<close> is the state of the world they read and write (files, standard
  input and output).
  \<^item> \<open>simplify_args\<close>: the normalised token list of an argument vector.
  \<^item> \<open>next_arg_end\<close>: the processing error of \<open>next_arg\<close> when no further token exists.
  \<^item> \<open>strtol_check\<close>: the integer a token denotes.
  \<^item> \<open>read_input filename_is_code filename\<close>: whether the read succeeded, the value
    left in \<open>*filename\<close> and the value left in \<open>*input\<close>.
  \<^item> \<open>write_output_file output output_file\<close>: whether the write succeeded.
  \<^item> \<open>jsonnet_fmt_snippet vm filename snippet\<close>: the returned buffer (as the bytes
    before its terminating NUL) and the value stored in \<open>*error\<close>.
\<close>

record 'w env =
  simplify_args :: "string list \<Rightarrow> string list outcome"
  next_arg_end :: exn
  strtol_check :: "string \<Rightarrow> long outcome"
  read_input :: "bool \<Rightarrow> string \<Rightarrow> 'w \<Rightarrow> (bool \<times> string \<times> string) outcome \<times> 'w"
  write_output_file :: "string \<Rightarrow> string \<Rightarrow> 'w \<Rightarrow> bool outcome \<times> 'w"
  jsonnet_fmt_snippet :: "JsonnetVm \<Rightarrow> string \<Rightarrow> string \<Rightarrow> string \<times> int"

subsection \<open>Text\<close>

definition endl :: string where
  "endl = [CHR 0x0A]"

text \<open>\<open>std::string::c_str()\<close> read as a C string: the bytes before the first NUL.\<close>

definition c_str :: "string \<Rightarrow> string" where
  "c_str s = takeWhile (\<lambda>c. c \<noteq> CHR 0x00) s"

fun dec :: "nat \<Rightarrow> string" where
  "dec n = (if n < 10 then [char_of (48 + n)] else dec (n div 10) @ [char_of (48 + n mod 10)])"

text \<open>\<open>operator<<\<close> on a \<open>long\<close>.\<close>

definition show_long :: "long \<Rightarrow> string" where
  "show_long l = (if sint l < 0 then ''-'' @ dec (nat (- sint l)) else dec (nat (sint l)))"

subsection \<open>process_args\<close>

text \<open>The variables of \<open>process_args\<close> that the scan changes, and what it has printed.\<close>

record args_state =
  config :: JsonnetConfig
  vm :: JsonnetVm
  remaining_args :: "string list"
  trace :: "event list"

definition emit :: "event list \<Rightarrow> args_state \<Rightarrow> args_state" where
  "emit es s = s\<lparr>trace := trace s @ es\<rparr>"

definition fmt_set :: "fmt_option \<Rightarrow> args_state \<Rightarrow> args_state" where
  "fmt_set opt s = s\<lparr>vm := vm s @ [opt]\<rparr>"

text \<open>
  Modelled from the spec: \<open>next_arg\<close> is declared in \<open>utils.h\<close> and its body is not
  part of the sources. It consumes the following token as the value; it fails with a
  processing error if no further token exists. The argument is the list of tokens after
  the current one; the result is the value and the tokens after it.
\<close>

definition next_arg :: "'w env \<Rightarrow> string list \<Rightarrow> (string \<times> string list) outcome" where
  "next_arg env rest =
     (case rest of [] \<Rightarrow> Throws (next_arg_end env) | v # rest' \<Rightarrow> Returns (v, rest'))"

text \<open>
  One iteration of the \<open>for\<close> loop of \<open>process_args\<close>, at the token \<open>arg\<close> with the
  tokens \<open>rest\<close> after it. \<open>Next rest'\<close>: the loop goes on with the tokens \<open>rest'\<close>;
  \<open>Break\<close>: the \<open>break\<close> after \<open>--\<close>; \<open>Return st\<close>: a \<open>return\<close> inside the loop;
  \<open>Leave e\<close>: a helper threw \<open>e\<close>.
\<close>

datatype scan_step = Next "string list" | Break | Return ArgStatus | Leave exn

definition scan_token :: "'w env \<Rightarrow> string \<Rightarrow> string list \<Rightarrow> args_state \<Rightarrow> scan_step \<times> args_state" where
  "scan_token env arg rest s =
    (if arg = ''-h'' \<or> arg = ''--help'' then (Return ARG_SUCCESS, emit [Usage Stdout] s)
     else if arg = ''-v'' \<or> arg = ''--version'' then (Return ARG_SUCCESS, emit [Version Stdout] s)
     else if arg = ''-e'' \<or> arg = ''--exec'' then
       (Next rest, s\<lparr>config := (config s)\<lparr>filenameIsCode := True\<rparr>\<rparr>)
     else if arg = ''-o'' \<or> arg = ''--output-file'' then
       (case next_arg env rest of
          Throws e \<Rightarrow> (Leave e, s)
        | Returns (output_file, rest') \<Rightarrow>
            if length output_file = 0 then
              (Return ARG_FAILURE,
               emit [Print Stderr (''ERROR: -o argument was empty string'' @ endl)] s)
            else (Next rest', s\<lparr>config := (config s)\<lparr>outputFile := output_file\<rparr>\<rparr>))
     else if arg = ''--'' then
       (Break, s\<lparr>remaining_args := remaining_args s @ rest\<rparr>)
     else if arg = ''-i'' \<or> arg = ''--in-place'' then
       (Next rest, s\<lparr>config := (config s)\<lparr>fmtInPlace := True\<rparr>\<rparr>)
     else if arg = ''--test'' then
       (Next rest, s\<lparr>config := (config s)\<lparr>fmtTest := True\<rparr>\<rparr>)
     else if arg = ''-n'' \<or> arg = ''--indent'' then
       (case next_arg env rest of
          Throws e \<Rightarrow> (Leave e, s)
        | Returns (v, rest') \<Rightarrow>
            (case strtol_check env v of
               Throws e \<Rightarrow> (Leave e, s)
             | Returns l \<Rightarrow>
                 if sint l < 0 then
                   (Return ARG_FAILURE,
                    emit [Print Stderr (''ERROR: invalid --indent value: '' @ show_long l @ endl)] s)
                 else (Next rest', fmt_set (FmtIndent l) s)))
     else if arg = ''--max-blank-lines'' then
       (case next_arg env rest of
          Throws e \<Rightarrow> (Leave e, s)
        | Returns (v, rest') \<Rightarrow>
            (case strtol_check env v of
               Throws e \<Rightarrow> (Leave e, s)
             | Returns l \<Rightarrow>
                 if sint l < 0 then
                   (Return ARG_FAILURE,
                    emit [Print Stderr
                      (''ERROR: invalid --max-blank-lines value: '' @ show_long l @ '''' @ endl)] s)
                 else (Next rest', fmt_set (FmtMaxBlankLines l) s)))
     else if arg = ''--comment-style'' then
       (case next_arg env rest of
          Throws e \<Rightarrow> (Leave e, s)
        | Returns (val, rest') \<Rightarrow>
            if val = ''h'' then (Next rest', fmt_set (FmtComment CHR ''h'') s)
            else if val = ''s'' then (Next rest', fmt_set (FmtComment CHR ''s'') s)
            else if val = ''l'' then (Next rest', fmt_set (FmtComment CHR ''l'') s)
            else (Return ARG_FAILURE,
                  emit [Print Stderr (''ERROR: invalid --comment-style value: '' @ val @ endl)] s))
     else if arg = ''--string-style'' then
       (case next_arg env rest of
          Throws e \<Rightarrow> (Leave e, s)
        | Returns (val, rest') \<Rightarrow>
            if val = ''d'' then (Next rest', fmt_set (FmtString CHR ''d'') s)
            else if val = ''s'' then (Next rest', fmt_set (FmtString CHR ''s'') s)
            else if val = ''l'' then (Next rest', fmt_set (FmtString CHR ''l'') s)
            else (Return ARG_FAILURE,
                  emit [Print Stderr (''ERROR: invalid --string-style value: '' @ val @ endl)] s))
     else if arg = ''--pad-arrays'' then (Next rest, fmt_set (FmtPadArrays True) s)
     else if arg = ''--no-pad-arrays'' then (Next rest, fmt_set (FmtPadArrays False) s)
     else if arg = ''--pad-objects'' then (Next rest, fmt_set (FmtPadObjects True) s)
     else if arg = ''--no-pad-objects'' then (Next rest, fmt_set (FmtPadObjects False) s)
     else if arg = ''--pretty-field-names'' then (Next rest, fmt_set (FmtPrettyFieldNames True) s)
     else if arg = ''--no-pretty-field-names'' then (Next rest, fmt_set (FmtPrettyFieldNames False) s)
     else if arg = ''--sort-imports'' then (Next rest, fmt_set (FmtSortImports True) s)
     else if arg = ''--no-sort-imports'' then (Next rest, fmt_set (FmtSortImports False) s)
     else if arg = ''--debug-desugaring'' then (Next rest, fmt_set (FmtDebugDesugaring True) s)
     else if length arg > 1 \<and> arg ! 0 = CHR ''-'' then
       (Return ARG_FAILURE, emit [Print Stderr (''ERROR: unrecognized argument: '' @ arg @ endl)] s)
     else (Next rest, s\<lparr>remaining_args := remaining_args s @ [arg]\<rparr>))"

text \<open>
  The \<open>for\<close> loop of \<open>process_args\<close> over the tokens not yet consumed. \<open>LoopEnd\<close>: the
  loop condition became false.
\<close>

datatype scan_exit = LoopEnd | LoopBreak | LoopReturn ArgStatus | LoopLeave exn

function scan :: "'w env \<Rightarrow> string list \<Rightarrow> args_state \<Rightarrow> scan_exit \<times> args_state" where
  "scan env [] s = (LoopEnd, s)"
| "scan env (arg # rest) s =
     (case scan_token env arg rest s of
        (Next rest', s') \<Rightarrow> scan env rest' s'
      | (Break, s') \<Rightarrow> (LoopBreak, s')
      | (Return st, s') \<Rightarrow> (LoopReturn st, s')
      | (Leave e, s') \<Rightarrow> (LoopLeave e, s'))"
  by pat_completeness auto
termination
  by (relation "measure (\<lambda>(env, args, s). length args)")
     (auto simp: scan_token_def next_arg_def
           split: if_splits list.splits outcome.splits prod.splits)

text \<open>The checks after the loop (from \<open>const char *want\<close> to the end of the function).\<close>

definition post_scan :: "args_state \<Rightarrow> ArgStatus \<times> args_state" where
  "post_scan s =
    (let want = (if filenameIsCode (config s) then ''code'' else ''filename'') in
     if length (remaining_args s) = 0 then
       (ARG_FAILURE,
        emit [Print Stderr (''ERROR: must give '' @ want @ [CHR 0x0A] @ endl), Usage Stderr] s)
     else if \<not> fmtTest (config s) \<and> \<not> fmtInPlace (config s) \<and> length (remaining_args s) > 1 then
       (ARG_FAILURE,
        emit [Print Stderr (''ERROR: only one '' @ want @ '' is allowed'' @ [CHR 0x0A] @ endl)] s)
     else (ARG_CONTINUE, s\<lparr>config := (config s)\<lparr>inputFiles := remaining_args s\<rparr>\<rparr>))"

text \<open>Every spelling that the loop compares a token with.\<close>

definition recognized_flags :: "string list" where
  "recognized_flags =
     [''-h'', ''--help'', ''-v'', ''--version'', ''-e'', ''--exec'', ''-o'', ''--output-file'',
      ''--'', ''-i'', ''--in-place'', ''--test'', ''-n'', ''--indent'', ''--max-blank-lines'',
      ''--comment-style'', ''--string-style'', ''--pad-arrays'', ''--no-pad-arrays'',
      ''--pad-objects'', ''--no-pad-objects'', ''--pretty-field-names'',
      ''--no-pretty-field-names'', ''--sort-imports'', ''--no-sort-imports'',
      ''--debug-desugaring'']"

definition process_args :: "'w env \<Rightarrow> string list \<Rightarrow> args_state \<Rightarrow> ArgStatus outcome \<times> args_state" where
  "process_args env argv s =
    (case simplify_args env argv of
       Throws e \<Rightarrow> (Throws e, s)
     | Returns args \<Rightarrow>
        (case scan env args s of
           (LoopReturn st, s') \<Rightarrow> (Returns st, s')
         | (LoopLeave e, s') \<Rightarrow> (Throws e, s')
         | (LoopBreak, s') \<Rightarrow> (case post_scan s' of (st, s'') \<Rightarrow> (Returns st, s''))
         | (LoopEnd, s') \<Rightarrow> (case post_scan s' of (st, s'') \<Rightarrow> (Returns st, s''))))"

subsection \<open>main\<close>

definition EXIT_SUCCESS :: int where
  "EXIT_SUCCESS = 0"

definition EXIT_FAILURE :: int where
  "EXIT_FAILURE = 1"

text \<open>
  The state of the run: the world behind the I/O helpers, the trace so far, and the local
  variable \<open>output_file\<close> of \<open>main\<close>.
\<close>

record 'w proc =
  world :: 'w
  events :: "event list"
  output_file :: string

definition log :: "event list \<Rightarrow> 'w proc \<Rightarrow> 'w proc" where
  "log es p = p\<lparr>events := events p @ es\<rparr>"

text \<open>
  How a statement of \<open>main\<close> ends. \<open>Continue\<close>: control goes on to the next statement;
  \<open>Finish n\<close>: \<open>return n\<close>; \<open>Unwind e\<close>: a helper threw \<open>e\<close>; \<open>AssertFailed\<close>:
  an \<open>assert\<close> failed.
\<close>

datatype ctl = Continue | Finish int | Unwind exn | AssertFailed

text \<open>The body of the loop over \<open>config.inputFiles\<close> (in-place or test mode).\<close>

definition fmt_entry ::
  "'w env \<Rightarrow> JsonnetConfig \<Rightarrow> JsonnetVm \<Rightarrow> string \<Rightarrow> 'w proc \<Rightarrow> ctl \<times> 'w proc" where
  "fmt_entry env cfg v inputFile p0 =
    (let p = (if fmtInPlace cfg then p0\<lparr>output_file := inputFile\<rparr> else p0) in
     if fmtInPlace cfg \<and> inputFile = ''-'' then
       (Finish EXIT_FAILURE,
        log [Print Stderr (''ERROR: cannot use --in-place with stdin'' @ endl), Destroy] p)
     else if fmtInPlace cfg \<and> filenameIsCode cfg then
       (Finish EXIT_FAILURE,
        log [Print Stderr (''ERROR: cannot use --in-place with --exec'' @ endl), Destroy] p)
     else
       (case read_input env (filenameIsCode cfg) inputFile (world p) of
          (Throws e, w) \<Rightarrow>
            (Unwind e, (log [ReadInput (filenameIsCode cfg) inputFile] p)\<lparr>world := w\<rparr>)
        | (Returns (ok, inputFile', input), w) \<Rightarrow>
            (let p1 = (log [ReadInput (filenameIsCode cfg) inputFile] p)\<lparr>world := w\<rparr> in
             if \<not> ok then (Finish EXIT_FAILURE, log [Destroy] p1)
             else
               (case jsonnet_fmt_snippet env v (c_str inputFile') (c_str input) of
                  (output, error) \<Rightarrow>
                    (let p2 = log [FmtSnippet (c_str inputFile') (c_str input)] p1 in
                     if error \<noteq> 0 then
                       (Finish EXIT_FAILURE, log [Print Stderr output, Realloc, Destroy] p2)
                     else if fmtTest cfg then
                       (let ok = (output = input); p3 = log [Realloc] p2 in
                        if \<not> ok then (Finish 2, log [Destroy] p3) else (Continue, p3))
                     else
                       (let different = (output \<noteq> input) in
                        if different then
                          (case write_output_file env output (output_file p2) (world p2) of
                             (Throws e, w') \<Rightarrow>
                               (Unwind e,
                                (log [WriteOutputFile output (output_file p2)] p2)\<lparr>world := w'\<rparr>)
                           | (Returns successful, w') \<Rightarrow>
                               (let p3 = (log [WriteOutputFile output (output_file p2), Realloc] p2)
                                           \<lparr>world := w'\<rparr> in
                                if \<not> successful then (Finish EXIT_FAILURE, log [Destroy] p3)
                                else (Continue, p3)))
                        else (Continue, p2)))))))"

fun fmt_loop ::
  "'w env \<Rightarrow> JsonnetConfig \<Rightarrow> JsonnetVm \<Rightarrow> string list \<Rightarrow> 'w proc \<Rightarrow> ctl \<times> 'w proc" where
  "fmt_loop env cfg v [] p = (Continue, p)"
| "fmt_loop env cfg v (inputFile # rest) p =
     (case fmt_entry env cfg v inputFile p of
        (Continue, p') \<Rightarrow> fmt_loop env cfg v rest p'
      | (c, p') \<Rightarrow> (c, p'))"

text \<open>The single-shot branch, after its \<open>assert\<close>, on \<open>config.inputFiles[0]\<close>.\<close>

definition fmt_single ::
  "'w env \<Rightarrow> JsonnetConfig \<Rightarrow> JsonnetVm \<Rightarrow> string \<Rightarrow> 'w proc \<Rightarrow> ctl \<times> 'w proc" where
  "fmt_single env cfg v inputFile p =
    (case read_input env (filenameIsCode cfg) inputFile (world p) of
       (Throws e, w) \<Rightarrow>
         (Unwind e, (log [ReadInput (filenameIsCode cfg) inputFile] p)\<lparr>world := w\<rparr>)
     | (Returns (ok, inputFile', input), w) \<Rightarrow>
         (let p1 = (log [ReadInput (filenameIsCode cfg) inputFile] p)\<lparr>world := w\<rparr> in
          if \<not> ok then (Finish EXIT_FAILURE, log [Destroy] p1)
          else
            (case jsonnet_fmt_snippet env v (c_str inputFile') (c_str input) of
               (output, error) \<Rightarrow>
                 (let p2 = log [FmtSnippet (c_str inputFile') (c_str input)] p1 in
                  if error \<noteq> 0 then
                    (Finish EXIT_FAILURE, log [Print Stderr output, Realloc, Destroy] p2)
                  else
                    (case write_output_file env output (output_file p2) (world p2) of
                       (Throws e, w') \<Rightarrow>
                         (Unwind e,
                          (log [WriteOutputFile output (output_file p2)] p2)\<lparr>world := w'\<rparr>)
                     | (Returns successful, w') \<Rightarrow>
                         (let p3 = (log [WriteOutputFile output (output_file p2), Realloc] p2)
                                     \<lparr>world := w'\<rparr> in
                          if \<not> successful then (Finish EXIT_FAILURE, log [Destroy] p3)
                          else (Continue, p3)))))))"

text \<open>
  The \<open>if (config.fmtInPlace || config.fmtTest) ... else ...\<close> statement of \<open>main\<close>,
  entered with \<open>output_file = config.outputFile\<close>.
\<close>

definition run :: "'w env \<Rightarrow> JsonnetConfig \<Rightarrow> JsonnetVm \<Rightarrow> 'w proc \<Rightarrow> ctl \<times> 'w proc" where
  "run env cfg v p0 =
    (let p = p0\<lparr>output_file := outputFile cfg\<rparr> in
     if fmtInPlace cfg \<or> fmtTest cfg then
       (if \<not> length (inputFiles cfg) \<ge> 1 then (AssertFailed, p)
        else fmt_loop env cfg v (inputFiles cfg) p)
     else
       (if \<not> length (inputFiles cfg) = 1 then (AssertFailed, p)
        else fmt_single env cfg v (inputFiles cfg ! 0) p))"

text \<open>
  The state in which \<open>main\<close> calls \<open>process_args\<close>: a fresh configuration and a fresh
  engine handle, just made.
\<close>

definition args_init :: args_state where
  "args_init = \<lparr>config = JsonnetConfig_init, vm = [], remaining_args = [], trace = [Make]\<rparr>"

text \<open>
  The \<open>try\<close> block of \<open>main\<close>, from \<open>jsonnet_make()\<close> to \<open>return EXIT_SUCCESS\<close>:
  how it ends, the world afterwards and the trace.
\<close>

definition try_block :: "'w env \<Rightarrow> string list \<Rightarrow> 'w \<Rightarrow> ctl \<times> 'w \<times> event list" where
  "try_block env argv w =
    (case process_args env argv args_init of
       (Throws e, s) \<Rightarrow> (Unwind e, w, trace s)
     | (Returns arg_status, s) \<Rightarrow>
         if arg_status \<noteq> ARG_CONTINUE then
           (Finish (if arg_status = ARG_SUCCESS then EXIT_SUCCESS else EXIT_FAILURE), w,
            trace s @ [Destroy])
         else
           (case run env (config s) (vm s) \<lparr>world = w, events = trace s, output_file = []\<rparr> of
              (Continue, p) \<Rightarrow> (Finish EXIT_SUCCESS, world p, events p @ [Destroy])
            | (c, p) \<Rightarrow> (c, world p, events p)))"

text \<open>What the three \<open>catch\<close> handlers print.\<close>

fun handler :: "exn \<Rightarrow> event" where
  "handler bad_alloc =
     Print Stderr (''Internal out-of-memory error (please report this)'' @ [CHR 0x0A])"
| "handler (std_exception what) =
     Print Stderr (''Internal error (please report this): '' @ what @ endl)"
| "handler unknown_exception =
     Print Stderr (''An unknown exception occurred (please report this).'' @ endl)"

text \<open>How the process ends: with an exit status, or killed by a failed assertion.\<close>

datatype status = Exited int | Aborted

text \<open>
  \<open>main\<close> on the argument vector \<open>argv\<close> in the world \<open>w\<close>: the exit status, the
  world afterwards and the trace of the process. After a handler, and if the \<open>try\<close>
  block were left without a \<open>return\<close>, control reaches the final \<open>return EXIT_FAILURE\<close>.
\<close>

definition main :: "'w env \<Rightarrow> string list \<Rightarrow> 'w \<Rightarrow> status \<times> 'w \<times> event list" where
  "main env argv w =
    (case try_block env argv w of
       (Finish n, w', es) \<Rightarrow> (Exited n, w', es)
     | (Unwind e, w', es) \<Rightarrow> (Exited EXIT_FAILURE, w', es @ [handler e])
     | (AssertFailed, w', es) \<Rightarrow> (Aborted, w', es)
     | (Continue, w', es) \<Rightarrow> (Exited EXIT_FAILURE, w', es))"

subsection \<open>An example environment\<close>

text \<open>
  A small world and a toy engine on which the model can be run: files are an association
  list from paths to contents, paths listed in \<open>readonly\<close> cannot be written, and the
  toy engine removes every space and rejects a text that contains an exclamation mark.
\<close>

record fs =
  files :: "(string \<times> string) list"
  readonly :: "string list"
  stdin :: string
  stdout :: string

definition ex_simplify_args :: "string list \<Rightarrow> string list outcome" where
  "ex_simplify_args argv =
     Returns (concat (map (\<lambda>arg.
        if length arg > 2 \<and> arg ! 0 = CHR ''-'' \<and> arg ! 1 \<noteq> CHR ''-''
        then map (\<lambda>c. [CHR ''-'', c]) (tl arg) else [arg]) (tl argv)))"

definition ex_strtol_check :: "string \<Rightarrow> long outcome" where
  "ex_strtol_check v =
     (if v \<noteq> [] \<and> list_all (\<lambda>c. 48 \<le> (of_char c :: nat) \<and> (of_char c :: nat) \<le> 57) v
      then Returns (of_nat (foldl (\<lambda>n c. 10 * n + (of_char c - 48)) 0 v))
      else Throws (std_exception ''invalid integer''))"

definition ex_read_input ::
  "bool \<Rightarrow> string \<Rightarrow> fs \<Rightarrow> (bool \<times> string \<times> string) outcome \<times> fs" where
  "ex_read_input filename_is_code filename w =
     (if filename_is_code then (Returns (True, ''<cmdline>'', filename), w)
      else if filename = ''-'' then (Returns (True, ''<stdin>'', stdin w), w\<lparr>stdin := []\<rparr>)
      else (case map_of (files w) filename of
              None \<Rightarrow> (Returns (False, filename, []), w)
            | Some content \<Rightarrow> (Returns (True, filename, content), w)))"

definition ex_write_output_file :: "string \<Rightarrow> string \<Rightarrow> fs \<Rightarrow> bool outcome \<times> fs" where
  "ex_write_output_file output path w =
     (if path = [] then (Returns True, w\<lparr>stdout := stdout w @ output\<rparr>)
      else if path \<in> set (readonly w) then (Returns False, w)
      else (Returns True, w\<lparr>files := (path, output) # filter (\<lambda>(k, c). k \<noteq> path) (files w)\<rparr>))"

definition ex_fmt_snippet :: "JsonnetVm \<Rightarrow> string \<Rightarrow> string \<Rightarrow> string \<times> int" where
  "ex_fmt_snippet v filename snippet =
     (if CHR ''!'' \<in> set snippet then (filename @ '': syntax error'' @ [CHR 0x0A], 1)
      else (filter (\<lambda>c. c \<noteq> CHR '' '') snippet, 0))"

definition ex_env :: "fs env" where
  "ex_env =
     \<lparr>simplify_args = ex_simplify_args,
      next_arg_end = std_exception ''Expected another commandline argument.'',
      strtol_check = ex_strtol_check,
      read_input = ex_read_input,
      write_output_file = ex_write_output_file,
      jsonnet_fmt_snippet = ex_fmt_snippet\<rparr>"

text \<open>
  \<open>good.jsonnet\<close> is already in the toy engine's canonical form, \<open>loose.jsonnet\<close> is
  not, \<open>bad.jsonnet\<close> is rejected by the engine, \<open>locked.jsonnet\<close> cannot be written.
\<close>

definition ex_fs :: fs where
  "ex_fs =
     \<lparr>files = [(''good.jsonnet'', ''{a:1}''), (''loose.jsonnet'', ''{ a: 1 }''),
               (''bad.jsonnet'', ''{!}''), (''locked.jsonnet'', ''{ b: 2 }'')],
      readonly = [''locked.jsonnet''],
      stdin = ''{ c: 3 }'',
      stdout = []\<rparr>"

text \<open>The same environment on a machine where reading an input runs out of memory.\<close>

definition ex_env_oom :: "fs env" where
  "ex_env_oom = ex_env\<lparr>read_input := \<lambda>filename_is_code filename w. (Throws bad_alloc, w)\<rparr>"

subsection \<open>Notions used in the statements\<close>

text \<open>The calls that read an input, and the calls that write an output.\<close>

fun is_read :: "event \<Rightarrow> bool" where
  "is_read (ReadInput filename_is_code filename) = True"
| "is_read e = False"

fun is_write :: "event \<Rightarrow> bool" where
  "is_write (WriteOutputFile output path) = True"
| "is_write e = False"

text \<open>
  The state in which \<open>main\<close> enters its \<open>if (config.fmtInPlace || config.fmtTest)\<close>
  statement after \<open>process_args\<close> has returned \<open>ARG_CONTINUE\<close>.
\<close>

definition proc_init :: "JsonnetConfig \<Rightarrow> 'w \<Rightarrow> 'w proc" where
  "proc_init cfg w = \<lparr>world = w, events = [Make], output_file = outputFile cfg\<rparr>"

text \<open>
  The inputs of a batch as they are read one after the other when nothing is written in
  between: for each entry the name and the text that \<open>read_input\<close> leaves in
  \<open>*filename\<close> and \<open>*input\<close>. \<open>None\<close> when some entry cannot be read.
\<close>

fun inputs_read :: "'w env \<Rightarrow> bool \<Rightarrow> string list \<Rightarrow> 'w \<Rightarrow> (string \<times> string) list option" where
  "inputs_read env code [] w = Some []"
| "inputs_read env code (f # fs) w =
     (case read_input env code f w of
        (Returns (True, name, input), w') \<Rightarrow>
          (case inputs_read env code fs w' of
             None \<Rightarrow> None
           | Some obs \<Rightarrow> Some ((name, input) # obs))
      | _ \<Rightarrow> None)"

text \<open>The engine formats an input without error; its output equals the input.\<close>

definition formats :: "'w env \<Rightarrow> JsonnetVm \<Rightarrow> string \<times> string \<Rightarrow> bool" where
  "formats env v ni = (snd (jsonnet_fmt_snippet env v (c_str (fst ni)) (c_str (snd ni))) = 0)"

definition unchanged :: "'w env \<Rightarrow> JsonnetVm \<Rightarrow> string \<times> string \<Rightarrow> bool" where
  "unchanged env v ni = (fst (jsonnet_fmt_snippet env v (c_str (fst ni)) (c_str (snd ni))) = snd ni)"


section \<open>The argument processor\<close>

subsection \<open>What one iteration of the scan computes\<close>

text \<open>
  The loop body is a chain of comparisons of the token with literal spellings. Its value at
  each spelling, and at a token that is none of them, is computed once here; the properties
  of the scan below are derived from these equations.
\<close>

lemma scan_token_flag:
  "scan_token env ''-h'' rest s = (Return ARG_SUCCESS, emit [Usage Stdout] s)"
  "scan_token env ''--help'' rest s = (Return ARG_SUCCESS, emit [Usage Stdout] s)"
  "scan_token env ''-v'' rest s = (Return ARG_SUCCESS, emit [Version Stdout] s)"
  "scan_token env ''--version'' rest s = (Return ARG_SUCCESS, emit [Version Stdout] s)"
  "scan_token env ''-e'' rest s = (Next rest, s\<lparr>config := (config s)\<lparr>filenameIsCode := True\<rparr>\<rparr>)"
  "scan_token env ''--exec'' rest s = (Next rest, s\<lparr>config := (config s)\<lparr>filenameIsCode := True\<rparr>\<rparr>)"
  "scan_token env ''--'' rest s = (Break, s\<lparr>remaining_args := remaining_args s @ rest\<rparr>)"
  "scan_token env ''-i'' rest s = (Next rest, s\<lparr>config := (config s)\<lparr>fmtInPlace := True\<rparr>\<rparr>)"
  "scan_token env ''--in-place'' rest s = (Next rest, s\<lparr>config := (config s)\<lparr>fmtInPlace := True\<rparr>\<rparr>)"
  "scan_token env ''--test'' rest s = (Next rest, s\<lparr>config := (config s)\<lparr>fmtTest := True\<rparr>\<rparr>)"
  "scan_token env ''--pad-arrays'' rest s = (Next rest, fmt_set (FmtPadArrays True) s)"
  "scan_token env ''--no-pad-arrays'' rest s = (Next rest, fmt_set (FmtPadArrays False) s)"
  "scan_token env ''--pad-objects'' rest s = (Next rest, fmt_set (FmtPadObjects True) s)"
  "scan_token env ''--no-pad-objects'' rest s = (Next rest, fmt_set (FmtPadObjects False) s)"
  "scan_token env ''--pretty-field-names'' rest s = (Next rest, fmt_set (FmtPrettyFieldNames True) s)"
  "scan_token env ''--no-pretty-field-names'' rest s = (Next rest, fmt_set (FmtPrettyFieldNames False) s)"
  "scan_token env ''--sort-imports'' rest s = (Next rest, fmt_set (FmtSortImports True) s)"
  "scan_token env ''--no-sort-imports'' rest s = (Next rest, fmt_set (FmtSortImports False) s)"
  "scan_token env ''--debug-desugaring'' rest s = (Next rest, fmt_set (FmtDebugDesugaring True) s)"
  by (simp_all add: scan_token_def)

lemma scan_token_output_file:
  "scan_token env ''-o'' rest s =
     (case next_arg env rest of
        Throws e \<Rightarrow> (Leave e, s)
      | Returns (v, rest') \<Rightarrow>
          if length v = 0 then
            (Return ARG_FAILURE,
             emit [Print Stderr (''ERROR: -o argument was empty string'' @ endl)] s)
          else (Next rest', s\<lparr>config := (config s)\<lparr>outputFile := v\<rparr>\<rparr>))"
  "scan_token env ''--output-file'' rest s =
     (case next_arg env rest of
        Throws e \<Rightarrow> (Leave e, s)
      | Returns (v, rest') \<Rightarrow>
          if length v = 0 then
            (Return ARG_FAILURE,
             emit [Print Stderr (''ERROR: -o argument was empty string'' @ endl)] s)
          else (Next rest', s\<lparr>config := (config s)\<lparr>outputFile := v\<rparr>\<rparr>))"
  by (simp_all add: scan_token_def)

lemma scan_token_indent:
  "scan_token env ''-n'' rest s =
     (case next_arg env rest of
        Throws e \<Rightarrow> (Leave e, s)
      | Returns (v, rest') \<Rightarrow>
          (case strtol_check env v of
             Throws e \<Rightarrow> (Leave e, s)
           | Returns l \<Rightarrow>
               if sint l < 0 then
                 (Return ARG_FAILURE,
                  emit [Print Stderr (''ERROR: invalid --indent value: '' @ show_long l @ endl)] s)
               else (Next rest', fmt_set (FmtIndent l) s)))"
  "scan_token env ''--indent'' rest s =
     (case next_arg env rest of
        Throws e \<Rightarrow> (Leave e, s)
      | Returns (v, rest') \<Rightarrow>
          (case strtol_check env v of
             Throws e \<Rightarrow> (Leave e, s)
           | Returns l \<Rightarrow>
               if sint l < 0 then
                 (Return ARG_FAILURE,
                  emit [Print Stderr (''ERROR: invalid --indent value: '' @ show_long l @ endl)] s)
               else (Next rest', fmt_set (FmtIndent l) s)))"
  by (simp_all add: scan_token_def)

lemma scan_token_max_blank_lines:
  "scan_token env ''--max-blank-lines'' rest s =
     (case next_arg env rest of
        Throws e \<Rightarrow> (Leave e, s)
      | Returns (v, rest') \<Rightarrow>
          (case strtol_check env v of
             Throws e \<Rightarrow> (Leave e, s)
           | Returns l \<Rightarrow>
               if sint l < 0 then
                 (Return ARG_FAILURE,
                  emit [Print Stderr
                    (''ERROR: invalid --max-blank-lines value: '' @ show_long l @ '''' @ endl)] s)
               else (Next rest', fmt_set (FmtMaxBlankLines l) s)))"
  by (simp_all add: scan_token_def)

lemma scan_token_comment_style:
  "scan_token env ''--comment-style'' rest s =
     (case next_arg env rest of
        Throws e \<Rightarrow> (Leave e, s)
      | Returns (val, rest') \<Rightarrow>
          if val = ''h'' then (Next rest', fmt_set (FmtComment CHR ''h'') s)
          else if val = ''s'' then (Next rest', fmt_set (FmtComment CHR ''s'') s)
          else if val = ''l'' then (Next rest', fmt_set (FmtComment CHR ''l'') s)
          else (Return ARG_FAILURE,
                emit [Print Stderr (''ERROR: invalid --comment-style value: '' @ val @ endl)] s))"
  by (simp_all add: scan_token_def)

lemma scan_token_string_style:
  "scan_token env ''--string-style'' rest s =
     (case next_arg env rest of
        Throws e \<Rightarrow> (Leave e, s)
      | Returns (val, rest') \<Rightarrow>
          if val = ''d'' then (Next rest', fmt_set (FmtString CHR ''d'') s)
          else if val = ''s'' then (Next rest', fmt_set (FmtString CHR ''s'') s)
          else if val = ''l'' then (Next rest', fmt_set (FmtString CHR ''l'') s)
          else (Return ARG_FAILURE,
                emit [Print Stderr (''ERROR: invalid --string-style value: '' @ val @ endl)] s))"
  by (simp_all add: scan_token_def)

lemma scan_token_unrecognized:
  assumes "arg \<notin> set recognized_flags" and "length arg > 1" and "arg ! 0 = CHR ''-''"
  shows "scan_token env arg rest s =
     (Return ARG_FAILURE, emit [Print Stderr (''ERROR: unrecognized argument: '' @ arg @ endl)] s)"
  using assms by (simp add: scan_token_def recognized_flags_def)

lemma scan_token_positional:
  assumes "arg \<notin> set recognized_flags" and "\<not> (length arg > 1 \<and> arg ! 0 = CHR ''-'')"
  shows "scan_token env arg rest s = (Next rest, s\<lparr>remaining_args := remaining_args s @ [arg]\<rparr>)"
  using assms by (simp add: scan_token_def recognized_flags_def)

lemmas scan_token_value =
  scan_token_output_file scan_token_indent scan_token_max_blank_lines
  scan_token_comment_style scan_token_string_style

text \<open>
  An iteration that goes on looks at most at the token after the current one: tokens further
  on do not change what it does.
\<close>

lemma scan_token_Next_append:
  assumes "scan_token env arg rest s = (Next rest', s')"
  shows "scan_token env arg (rest @ suf) s = (Next (rest' @ suf), s')"
proof (cases "arg \<in> set recognized_flags")
  case True
  then show ?thesis
    using assms
    by (auto simp: recognized_flags_def scan_token_flag scan_token_value next_arg_def
             split: list.splits outcome.splits if_splits)
next
  case False
  then show ?thesis
    using assms
    by (cases "length arg > 1 \<and> arg ! 0 = CHR ''-''")
       (simp_all add: scan_token_unrecognized scan_token_positional)
qed

lemma scan_token_trace:
  assumes "scan_token env arg rest s = (st, s')" and "st = Break \<or> st = Next r"
  shows "trace s' = trace s"
proof (cases "arg \<in> set recognized_flags")
  case True
  then show ?thesis
    using assms
    by (auto simp: recognized_flags_def scan_token_flag scan_token_value next_arg_def fmt_set_def
             split: list.splits outcome.splits if_splits)
next
  case False
  then show ?thesis
    using assms
    by (cases "length arg > 1 \<and> arg ! 0 = CHR ''-''")
       (auto simp add: scan_token_unrecognized scan_token_positional)
qed

text \<open>
  If the scan of \<open>pre\<close> runs to the end of \<open>pre\<close>, the scan of \<open>pre @ suf\<close> arrives at
  \<open>suf\<close> in the same state.
\<close>

lemma scan_append:
  "scan env pre s0 = (LoopEnd, s) \<Longrightarrow> scan env (pre @ suf) s0 = scan env suf s"
proof (induction env pre s0 rule: scan.induct)
  case (1 env s0)
  then show ?case by simp
next
  case (2 env arg rest s0)
  obtain st s' where tok: "scan_token env arg rest s0 = (st, s')"
    by (cases "scan_token env arg rest s0")
  with "2.prems" obtain rest' where st: "st = Next rest'"
    by (cases st) auto
  from tok st "2.prems" have "scan env rest' s' = (LoopEnd, s)" by simp
  with "2.IH" tok st have "scan env (rest' @ suf) s' = scan env suf s" by simp
  moreover from tok st have "scan_token env arg (rest @ suf) s0 = (Next (rest' @ suf), s')"
    by (simp add: scan_token_Next_append)
  ultimately show ?case by simp
qed

lemma scan_trace:
  "scan env args s0 = (e, s) \<Longrightarrow> e = LoopEnd \<or> e = LoopBreak \<Longrightarrow> trace s = trace s0"
proof (induction env args s0 rule: scan.induct)
  case (1 env s0)
  then show ?case by simp
next
  case (2 env arg rest s0)
  obtain st s' where tok: "scan_token env arg rest s0 = (st, s')"
    by (cases "scan_token env arg rest s0")
  show ?case
  proof (cases st)
    case (Next rest')
    with tok "2.prems" have "scan env rest' s' = (e, s)" by simp
    with "2.IH" tok Next "2.prems" have "trace s = trace s'" by simp
    with tok Next show ?thesis by (simp add: scan_token_trace)
  next
    case Break
    with tok "2.prems" have "s = s'" by simp
    with tok Break show ?thesis by (simp add: scan_token_trace)
  next
    case (Return st')
    with tok "2.prems" show ?thesis by auto
  next
    case (Leave x)
    with tok "2.prems" show ?thesis by auto
  qed
qed

text \<open>No \<open>return\<close> inside the loop returns \<open>ARG_CONTINUE\<close>.\<close>

lemma scan_token_not_CONTINUE:
  "scan_token env arg rest s \<noteq> (Return ARG_CONTINUE, s')"
proof (cases "arg \<in> set recognized_flags")
  case True
  then show ?thesis
    by (auto simp: recognized_flags_def scan_token_flag scan_token_value next_arg_def
             split: list.splits outcome.splits if_splits)
next
  case False
  then show ?thesis
    by (cases "length arg > 1 \<and> arg ! 0 = CHR ''-''")
       (simp_all add: scan_token_unrecognized scan_token_positional)
qed

lemma scan_not_CONTINUE:
  "scan env args s0 \<noteq> (LoopReturn ARG_CONTINUE, s)"
proof (induction env args s0 rule: scan.induct)
  case (1 env s0)
  then show ?case by simp
next
  case (2 env arg rest s0)
  obtain st s' where tok: "scan_token env arg rest s0 = (st, s')"
    by (cases "scan_token env arg rest s0")
  show ?case
  proof (cases st)
    case (Next rest')
    with "2.IH" tok show ?thesis by simp
  next
    case (Return st')
    with tok scan_token_not_CONTINUE [of env arg rest s0 s'] show ?thesis by auto
  qed (use tok in auto)
qed

lemma process_args_scan:
  assumes "process_args env argv s0 = (Returns ARG_CONTINUE, s)"
  obtains args e s1 where "simplify_args env argv = Returns args"
    and "scan env args s0 = (e, s1)" and "e = LoopEnd \<or> e = LoopBreak"
    and "post_scan s1 = (ARG_CONTINUE, s)"
proof -
  from assms obtain args where args: "simplify_args env argv = Returns args"
    by (cases "simplify_args env argv") (auto simp: process_args_def)
  obtain e s1 where sc: "scan env args s0 = (e, s1)" by (cases "scan env args s0")
  from assms args sc scan_not_CONTINUE [of env args s0 s] have e: "e = LoopEnd \<or> e = LoopBreak"
    by (cases e) (auto simp: process_args_def)
  with assms args sc have ps: "post_scan s1 = (ARG_CONTINUE, s)"
    by (auto simp: process_args_def split: prod.splits)
  from args sc e ps show ?thesis by (rule that)
qed

text \<open>
  What \<open>main\<close> may rely on after \<open>ARG_CONTINUE\<close>: nothing was printed, there is at
  least one input, and exactly one in single-shot mode (the two \<open>assert\<close>s of \<open>main\<close>).
\<close>

lemma process_args_CONTINUE:
  assumes "process_args env argv s0 = (Returns ARG_CONTINUE, s)"
  shows "trace s = trace s0"
    and "inputFiles (config s) \<noteq> []"
    and "\<not> fmtTest (config s) \<Longrightarrow> \<not> fmtInPlace (config s) \<Longrightarrow> length (inputFiles (config s)) = 1"
proof -
  from assms obtain args e s1 where sc: "scan env args s0 = (e, s1)"
    and e: "e = LoopEnd \<or> e = LoopBreak" and ps: "post_scan s1 = (ARG_CONTINUE, s)"
    by (rule process_args_scan)
  from sc e have t: "trace s1 = trace s0" by (rule scan_trace)
  from ps have s: "s = s1\<lparr>config := (config s1)\<lparr>inputFiles := remaining_args s1\<rparr>\<rparr>"
    and ne: "remaining_args s1 \<noteq> []"
    and one: "\<not> fmtTest (config s1) \<Longrightarrow> \<not> fmtInPlace (config s1) \<Longrightarrow> length (remaining_args s1) \<le> 1"
    by (auto simp: post_scan_def Let_def split: if_splits)
  from s t show "trace s = trace s0" by simp
  from s ne show "inputFiles (config s) \<noteq> []" by simp
  show "length (inputFiles (config s)) = 1" if "\<not> fmtTest (config s)" "\<not> fmtInPlace (config s)"
    using that s ne one by (cases "remaining_args s1") auto
qed

subsection \<open>Post-scan validation, \<open>--\<close> and unrecognized flags\<close>

text \<open>
  Claim C5. When the token scan reaches its end (the loop condition fails, or the loop is left
  by the \<open>break\<close> after \<open>--\<close>), \<open>process_args\<close> returns \<open>ARG_FAILURE\<close> if no
  positional argument was collected, returns \<open>ARG_FAILURE\<close> if neither \<open>fmtTest\<close> nor
  \<open>fmtInPlace\<close> is set and more than one positional argument was collected, and otherwise
  stores the positional arguments in \<open>inputFiles\<close> and returns \<open>ARG_CONTINUE\<close>.
\<close>

theorem post_scan_validation:
  assumes "simplify_args env argv = Returns args"
    and "scan env args s0 = (e, s)"
    and "e = LoopEnd \<or> e = LoopBreak"
  shows "process_args env argv s0 =
    (if length (remaining_args s) = 0 then
       (Returns ARG_FAILURE,
        emit [Print Stderr (''ERROR: must give ''
                @ (if filenameIsCode (config s) then ''code'' else ''filename'')
                @ [CHR 0x0A] @ endl), Usage Stderr] s)
     else if \<not> fmtTest (config s) \<and> \<not> fmtInPlace (config s) \<and> length (remaining_args s) > 1 then
       (Returns ARG_FAILURE,
        emit [Print Stderr (''ERROR: only one ''
                @ (if filenameIsCode (config s) then ''code'' else ''filename'')
                @ '' is allowed'' @ [CHR 0x0A] @ endl)] s)
     else (Returns ARG_CONTINUE, s\<lparr>config := (config s)\<lparr>inputFiles := remaining_args s\<rparr>\<rparr>))"
  using assms by (auto simp: process_args_def post_scan_def Let_def)

theorem post_scan_validation_witness:
  "process_args ex_env [''jsonnetfmt'', ''--test'', ''good.jsonnet'', ''loose.jsonnet''] args_init =
     (Returns ARG_CONTINUE,
      \<lparr>config = \<lparr>inputFiles = [''good.jsonnet'', ''loose.jsonnet''], outputFile = [],
                 filenameIsCode = False, fmtInPlace = False, fmtTest = True\<rparr>,
       vm = [], remaining_args = [''good.jsonnet'', ''loose.jsonnet''], trace = [Make]\<rparr>)
   \<and> fst (process_args ex_env [''jsonnetfmt'', ''good.jsonnet'', ''loose.jsonnet''] args_init) =
       Returns ARG_FAILURE
   \<and> fst (process_args ex_env [''jsonnetfmt'', ''-i''] args_init) = Returns ARG_FAILURE"
proof -
  have a1: "simplify_args ex_env [''jsonnetfmt'', ''--test'', ''good.jsonnet'', ''loose.jsonnet'']
              = Returns [''--test'', ''good.jsonnet'', ''loose.jsonnet'']"
    by (simp add: ex_env_def ex_simplify_args_def)
  have a2: "scan ex_env [''--test'', ''good.jsonnet'', ''loose.jsonnet''] args_init =
              (LoopEnd, \<lparr>config = \<lparr>inputFiles = [], outputFile = [],
                 filenameIsCode = False, fmtInPlace = False, fmtTest = True\<rparr>,
               vm = [], remaining_args = [''good.jsonnet'', ''loose.jsonnet''], trace = [Make]\<rparr>)"
    by (simp add: scan_token_def args_init_def JsonnetConfig_init_def)
  have b1: "simplify_args ex_env [''jsonnetfmt'', ''good.jsonnet'', ''loose.jsonnet'']
              = Returns [''good.jsonnet'', ''loose.jsonnet'']"
    by (simp add: ex_env_def ex_simplify_args_def)
  have b2: "scan ex_env [''good.jsonnet'', ''loose.jsonnet''] args_init =
              (LoopEnd, \<lparr>config = JsonnetConfig_init,
               vm = [], remaining_args = [''good.jsonnet'', ''loose.jsonnet''], trace = [Make]\<rparr>)"
    by (simp add: scan_token_def args_init_def)
  have c1: "simplify_args ex_env [''jsonnetfmt'', ''-i''] = Returns [''-i'']"
    by (simp add: ex_env_def ex_simplify_args_def)
  have c2: "scan ex_env [''-i''] args_init =
              (LoopEnd, \<lparr>config = \<lparr>inputFiles = [], outputFile = [],
                 filenameIsCode = False, fmtInPlace = True, fmtTest = False\<rparr>,
               vm = [], remaining_args = [], trace = [Make]\<rparr>)"
    by (simp add: scan_token_def args_init_def JsonnetConfig_init_def)
  show ?thesis
    using post_scan_validation [OF a1 a2] post_scan_validation [OF b1 b2]
      post_scan_validation [OF c1 c2]
    by (simp add: JsonnetConfig_init_def)
qed

text \<open>
  Claim C7. When the scan arrives at a token \<open>--\<close> (the tokens \<open>pre\<close> before it have
  been scanned to their end), every token after it is appended to the positional
  arguments, whatever it looks like, and the scan stops there: configuration, engine
  options and trace stay as they were when \<open>--\<close> was reached.
\<close>

theorem double_dash_positional:
  assumes "simplify_args env argv = Returns (pre @ ''--'' # rest)"
    and "scan env pre s0 = (LoopEnd, s)"
  shows "scan env (pre @ ''--'' # rest) s0 =
           (LoopBreak, s\<lparr>remaining_args := remaining_args s @ rest\<rparr>)
       \<and> process_args env argv s0 =
           (Returns (fst (post_scan (s\<lparr>remaining_args := remaining_args s @ rest\<rparr>))),
            snd (post_scan (s\<lparr>remaining_args := remaining_args s @ rest\<rparr>)))"
proof -
  have "scan env (pre @ ''--'' # rest) s0 = scan env (''--'' # rest) s"
    using assms(2) by (rule scan_append)
  also have "\<dots> = (LoopBreak, s\<lparr>remaining_args := remaining_args s @ rest\<rparr>)"
    by (simp add: scan_token_flag)
  finally have sc: "scan env (pre @ ''--'' # rest) s0 =
      (LoopBreak, s\<lparr>remaining_args := remaining_args s @ rest\<rparr>)" .
  with assms(1) show ?thesis
    by (simp add: process_args_def split: prod.splits)
qed

theorem double_dash_positional_witness:
  "scan ex_env ([''-i'', ''a.jsonnet''] @ ''--'' # [''--test'', ''-x'', ''--help'']) args_init =
     (LoopBreak,
      \<lparr>config = \<lparr>inputFiles = [], outputFile = [],
                 filenameIsCode = False, fmtInPlace = True, fmtTest = False\<rparr>,
       vm = [], remaining_args = [''a.jsonnet'', ''--test'', ''-x'', ''--help''], trace = [Make]\<rparr>)
   \<and> process_args ex_env [''jsonnetfmt'', ''-i'', ''a.jsonnet'', ''--'', ''--test'', ''-x'', ''--help'']
        args_init =
     (Returns ARG_CONTINUE,
      \<lparr>config = \<lparr>inputFiles = [''a.jsonnet'', ''--test'', ''-x'', ''--help''], outputFile = [],
                 filenameIsCode = False, fmtInPlace = True, fmtTest = False\<rparr>,
       vm = [], remaining_args = [''a.jsonnet'', ''--test'', ''-x'', ''--help''], trace = [Make]\<rparr>)"
proof -
  have a1: "simplify_args ex_env
              [''jsonnetfmt'', ''-i'', ''a.jsonnet'', ''--'', ''--test'', ''-x'', ''--help'']
            = Returns ([''-i'', ''a.jsonnet''] @ ''--'' # [''--test'', ''-x'', ''--help''])"
    by (simp add: ex_env_def ex_simplify_args_def)
  have a2: "scan ex_env [''-i'', ''a.jsonnet''] args_init =
              (LoopEnd, \<lparr>config = \<lparr>inputFiles = [], outputFile = [],
                 filenameIsCode = False, fmtInPlace = True, fmtTest = False\<rparr>,
               vm = [], remaining_args = [''a.jsonnet''], trace = [Make]\<rparr>)"
    by (simp add: scan_token_def args_init_def JsonnetConfig_init_def)
  show ?thesis
    using double_dash_positional [OF a1 a2]
    by (simp add: post_scan_def)
qed

lemma main_args_failure:
  "process_args env argv args_init = (Returns ARG_FAILURE, s) \<Longrightarrow>
   main env argv w = (Exited EXIT_FAILURE, w, trace s @ [Destroy])"
  by (simp add: main_def try_block_def)

text \<open>
  Claim C8. When the scan arrives at a token that begins with \<open>-\<close>, is longer than one
  character and is none of the recognized spellings, \<open>process_args\<close> returns
  \<open>ARG_FAILURE\<close> at once with an error message that names the token, and the process
  releases the engine and exits with status 1.
\<close>

theorem unrecognized_flag_fails:
  assumes "simplify_args env argv = Returns (pre @ arg # rest)"
    and "scan env pre args_init = (LoopEnd, s)"
    and "length arg > 1" and "arg ! 0 = CHR ''-''" and "arg \<notin> set recognized_flags"
  shows "process_args env argv args_init =
           (Returns ARG_FAILURE,
            emit [Print Stderr (''ERROR: unrecognized argument: '' @ arg @ endl)] s)
       \<and> main env argv w =
           (Exited 1, w,
            [Make, Print Stderr (''ERROR: unrecognized argument: '' @ arg @ endl), Destroy])"
proof -
  have "scan env (pre @ arg # rest) args_init = scan env (arg # rest) s"
    using assms(2) by (rule scan_append)
  also have "\<dots> = (LoopReturn ARG_FAILURE,
      emit [Print Stderr (''ERROR: unrecognized argument: '' @ arg @ endl)] s)"
    using assms(3-5) by (simp add: scan_token_unrecognized)
  finally have pa: "process_args env argv args_init =
      (Returns ARG_FAILURE, emit [Print Stderr (''ERROR: unrecognized argument: '' @ arg @ endl)] s)"
    using assms(1) by (simp add: process_args_def)
  have "trace s = [Make]"
    using scan_trace [OF assms(2)] by (simp add: args_init_def)
  with main_args_failure [OF pa, of w] pa show ?thesis
    by (simp add: emit_def EXIT_FAILURE_def)
qed

theorem unrecognized_flag_fails_witness:
  "process_args ex_env [''jsonnetfmt'', ''--test'', ''--bogus'', ''good.jsonnet''] args_init =
     (Returns ARG_FAILURE,
      \<lparr>config = \<lparr>inputFiles = [], outputFile = [],
                 filenameIsCode = False, fmtInPlace = False, fmtTest = True\<rparr>,
       vm = [], remaining_args = [],
       trace = [Make, Print Stderr (''ERROR: unrecognized argument: --bogus'' @ [CHR 0x0A])]\<rparr>)
   \<and> main ex_env [''jsonnetfmt'', ''--test'', ''--bogus'', ''good.jsonnet''] ex_fs =
     (Exited 1, ex_fs,
      [Make, Print Stderr (''ERROR: unrecognized argument: --bogus'' @ [CHR 0x0A]), Destroy])"
proof -
  have a1: "simplify_args ex_env [''jsonnetfmt'', ''--test'', ''--bogus'', ''good.jsonnet'']
            = Returns ([''--test''] @ ''--bogus'' # [''good.jsonnet''])"
    by (simp add: ex_env_def ex_simplify_args_def)
  have a2: "scan ex_env [''--test''] args_init =
              (LoopEnd, \<lparr>config = \<lparr>inputFiles = [], outputFile = [],
                 filenameIsCode = False, fmtInPlace = False, fmtTest = True\<rparr>,
               vm = [], remaining_args = [], trace = [Make]\<rparr>)"
    by (simp add: scan_token_def args_init_def JsonnetConfig_init_def)
  have a3: "length ''--bogus'' > 1" by simp
  have a4: "''--bogus'' ! 0 = CHR ''-''" by simp
  have a5: "''--bogus'' \<notin> set recognized_flags" by (simp add: recognized_flags_def)
  show ?thesis
    using unrecognized_flag_fails [OF a1 a2 a3 a4 a5, of ex_fs]
    by (simp add: emit_def endl_def)
qed

section \<open>The run orchestrator\<close>

subsection \<open>What one iteration of the loop over the inputs computes\<close>

text \<open>The equations that run the model on the example environment.\<close>

lemmas run_example =
  main_def try_block_def process_args_def post_scan_def args_init_def JsonnetConfig_init_def
  run_def fmt_entry_def fmt_single_def log_def emit_def fmt_set_def next_arg_def c_str_def
  EXIT_SUCCESS_def EXIT_FAILURE_def endl_def Let_def proc_init_def scan_token_def
  ex_env_def ex_env_oom_def ex_simplify_args_def ex_strtol_check_def ex_read_input_def
  ex_write_output_file_def ex_fmt_snippet_def ex_fs_def

text \<open>The paths through the loop body, one equation each.\<close>

lemma fmt_entry_reject_stdin:
  "fmtInPlace cfg \<Longrightarrow>
   fmt_entry env cfg v ''-'' p =
     (Finish EXIT_FAILURE,
      p\<lparr>output_file := ''-'',
        events := events p @
          [Print Stderr (''ERROR: cannot use --in-place with stdin'' @ endl), Destroy]\<rparr>)"
  by (simp add: fmt_entry_def log_def)

lemma fmt_entry_reject_exec:
  "fmtInPlace cfg \<Longrightarrow> filenameIsCode cfg \<Longrightarrow> f \<noteq> ''-'' \<Longrightarrow>
   fmt_entry env cfg v f p =
     (Finish EXIT_FAILURE,
      p\<lparr>output_file := f,
        events := events p @
          [Print Stderr (''ERROR: cannot use --in-place with --exec'' @ endl), Destroy]\<rparr>)"
  by (simp add: fmt_entry_def log_def)

lemma fmt_entry_engine_error:
  assumes "\<not> (fmtInPlace cfg \<and> (f = ''-'' \<or> filenameIsCode cfg))"
    and "read_input env (filenameIsCode cfg) f (world p) = (Returns (True, name, input), w1)"
    and "jsonnet_fmt_snippet env v (c_str name) (c_str input) = (out, err)"
    and "err \<noteq> 0"
  shows "fmt_entry env cfg v f p =
    (Finish EXIT_FAILURE,
     (if fmtInPlace cfg then p\<lparr>output_file := f\<rparr> else p)
       \<lparr>world := w1,
        events := events p @ [ReadInput (filenameIsCode cfg) f,
                              FmtSnippet (c_str name) (c_str input),
                              Print Stderr out, Realloc, Destroy]\<rparr>)"
  using assms by (cases "fmtInPlace cfg") (simp_all add: fmt_entry_def Let_def log_def)

lemma fmt_entry_test:
  assumes "\<not> (fmtInPlace cfg \<and> (f = ''-'' \<or> filenameIsCode cfg))"
    and "read_input env (filenameIsCode cfg) f (world p) = (Returns (True, name, input), w1)"
    and "jsonnet_fmt_snippet env v (c_str name) (c_str input) = (out, 0)"
    and "fmtTest cfg"
  shows "fmt_entry env cfg v f p =
    (if out = input then
       (Continue,
        (if fmtInPlace cfg then p\<lparr>output_file := f\<rparr> else p)
          \<lparr>world := w1,
           events := events p @ [ReadInput (filenameIsCode cfg) f,
                                 FmtSnippet (c_str name) (c_str input), Realloc]\<rparr>)
     else
       (Finish 2,
        (if fmtInPlace cfg then p\<lparr>output_file := f\<rparr> else p)
          \<lparr>world := w1,
           events := events p @ [ReadInput (filenameIsCode cfg) f,
                                 FmtSnippet (c_str name) (c_str input), Realloc, Destroy]\<rparr>))"
  using assms by (cases "fmtInPlace cfg") (simp_all add: fmt_entry_def Let_def log_def)



lemma fmt_single_written:
  assumes "read_input env (filenameIsCode cfg) f (world p) = (Returns (True, name, input), w1)"
    and "jsonnet_fmt_snippet env v (c_str name) (c_str input) = (out, 0)"
    and "write_output_file env out (output_file p) w1 = (r, w2)"
  shows "fmt_single env cfg v f p =
    (case r of
       Throws e \<Rightarrow>
         (Unwind e,
          p\<lparr>world := w2,
            events := events p @ [ReadInput (filenameIsCode cfg) f,
                                  FmtSnippet (c_str name) (c_str input),
                                  WriteOutputFile out (output_file p)]\<rparr>)
     | Returns successful \<Rightarrow>
         if successful then
           (Continue,
            p\<lparr>world := w2,
              events := events p @ [ReadInput (filenameIsCode cfg) f,
                                    FmtSnippet (c_str name) (c_str input),
                                    WriteOutputFile out (output_file p), Realloc]\<rparr>)
         else
           (Finish EXIT_FAILURE,
            p\<lparr>world := w2,
              events := events p @ [ReadInput (filenameIsCode cfg) f,
                                    FmtSnippet (c_str name) (c_str input),
                                    WriteOutputFile out (output_file p), Realloc, Destroy]\<rparr>))"
  using assms by (cases r) (simp_all add: fmt_single_def Let_def log_def)

lemma fmt_loop_append:
  "fmt_loop env cfg v pre p = (Continue, p') \<Longrightarrow>
   fmt_loop env cfg v (pre @ suf) p = fmt_loop env cfg v suf p'"
proof (induction pre arbitrary: p)
  case Nil
  then show ?case by simp
next
  case (Cons f pre)
  obtain c p1 where e: "fmt_entry env cfg v f p = (c, p1)"
    by (cases "fmt_entry env cfg v f p")
  with Cons.prems have c: "c = Continue" by (cases c) auto
  with e Cons.prems have "fmt_loop env cfg v pre p1 = (Continue, p')" by simp
  then have "fmt_loop env cfg v (pre @ suf) p1 = fmt_loop env cfg v suf p'"
    by (rule Cons.IH)
  with e c show ?case by simp
qed

text \<open>After \<open>ARG_CONTINUE\<close>, the \<open>try\<close> block is the mode's branch followed by the release.\<close>

lemma try_block_loop:
  assumes "process_args env argv args_init = (Returns ARG_CONTINUE, s)"
    and "fmtInPlace (config s) \<or> fmtTest (config s)"
  shows "try_block env argv w =
    (case fmt_loop env (config s) (vm s) (inputFiles (config s)) (proc_init (config s) w) of
       (Continue, p) \<Rightarrow> (Finish EXIT_SUCCESS, world p, events p @ [Destroy])
     | (c, p) \<Rightarrow> (c, world p, events p))"
proof -
  from assms(1) have "trace s = [Make]" and "inputFiles (config s) \<noteq> []"
    using process_args_CONTINUE [OF assms(1)] by (simp_all add: args_init_def)
  with assms show ?thesis
    by (auto simp: try_block_def run_def proc_init_def Let_def Suc_le_eq)
qed

lemma try_block_single:
  assumes "process_args env argv args_init = (Returns ARG_CONTINUE, s)"
    and "\<not> fmtInPlace (config s)" and "\<not> fmtTest (config s)"
  shows "try_block env argv w =
    (case fmt_single env (config s) (vm s) (inputFiles (config s) ! 0) (proc_init (config s) w) of
       (Continue, p) \<Rightarrow> (Finish EXIT_SUCCESS, world p, events p @ [Destroy])
     | (c, p) \<Rightarrow> (c, world p, events p))"
proof -
  from assms have "trace s = [Make]" and "length (inputFiles (config s)) = 1"
    using process_args_CONTINUE [OF assms(1)] by (simp_all add: args_init_def)
  with assms show ?thesis
    by (simp add: try_block_def run_def proc_init_def Let_def)
qed

subsection \<open>Engine errors and single-shot output\<close>

text \<open>
  Claim C6. In in-place or test mode, when the batch has reached the entry \<open>f\<close> and the
  engine reports an error for it, the engine's output is printed to the error stream and the
  process exits with status 1; the trace ends there, so no later entry is read or
  processed.
\<close>

theorem engine_error_aborts_batch:
  assumes "process_args env argv args_init = (Returns ARG_CONTINUE, s)"
    and "fmtInPlace (config s) \<or> fmtTest (config s)"
    and "inputFiles (config s) = pre @ f # post"
    and "fmt_loop env (config s) (vm s) pre (proc_init (config s) w) = (Continue, p)"
    and "\<not> (fmtInPlace (config s) \<and> (f = ''-'' \<or> filenameIsCode (config s)))"
    and "read_input env (filenameIsCode (config s)) f (world p) = (Returns (True, name, input), w1)"
    and "jsonnet_fmt_snippet env (vm s) (c_str name) (c_str input) = (out, err)"
    and "err \<noteq> 0"
  shows "main env argv w =
    (Exited 1, w1,
     events p @ [ReadInput (filenameIsCode (config s)) f, FmtSnippet (c_str name) (c_str input),
                 Print Stderr out, Realloc, Destroy])"
proof -
  have "fmt_loop env (config s) (vm s) (f # post) p =
      (Finish EXIT_FAILURE,
       (if fmtInPlace (config s) then p\<lparr>output_file := f\<rparr> else p)
         \<lparr>world := w1,
          events := events p @ [ReadInput (filenameIsCode (config s)) f,
                                FmtSnippet (c_str name) (c_str input),
                                Print Stderr out, Realloc, Destroy]\<rparr>)"
    using fmt_entry_engine_error [OF assms(5) assms(6) assms(7) assms(8)] by simp
  with fmt_loop_append [OF assms(4), of "f # post"] assms(3)
  have "fmt_loop env (config s) (vm s) (inputFiles (config s)) (proc_init (config s) w) =
      (Finish EXIT_FAILURE,
       (if fmtInPlace (config s) then p\<lparr>output_file := f\<rparr> else p)
         \<lparr>world := w1,
          events := events p @ [ReadInput (filenameIsCode (config s)) f,
                                FmtSnippet (c_str name) (c_str input),
                                Print Stderr out, Realloc, Destroy]\<rparr>)"
    by simp
  with try_block_loop [OF assms(1) assms(2), of w] show ?thesis
    by (simp add: main_def EXIT_FAILURE_def)
qed

theorem engine_error_aborts_batch_witness:
  "main ex_env [''jsonnetfmt'', ''--test'', ''good.jsonnet'', ''bad.jsonnet'', ''loose.jsonnet''] ex_fs =
     (Exited 1, ex_fs,
      [Make, ReadInput False ''good.jsonnet'', FmtSnippet ''good.jsonnet'' ''{a:1}'', Realloc,
       ReadInput False ''bad.jsonnet'', FmtSnippet ''bad.jsonnet'' ''{!}'',
       Print Stderr (''bad.jsonnet: syntax error'' @ [CHR 0x0A]), Realloc, Destroy])"
proof -
  let ?cfg = "\<lparr>inputFiles = [''good.jsonnet'', ''bad.jsonnet'', ''loose.jsonnet''], outputFile = [],
               filenameIsCode = False, fmtInPlace = False, fmtTest = True\<rparr>"
  let ?s = "\<lparr>config = ?cfg, vm = [],
             remaining_args = [''good.jsonnet'', ''bad.jsonnet'', ''loose.jsonnet''],
             trace = [Make]\<rparr>"
  let ?p = "\<lparr>world = ex_fs,
             events = [Make, ReadInput False ''good.jsonnet'',
                       FmtSnippet ''good.jsonnet'' ''{a:1}'', Realloc],
             output_file = []\<rparr>"
  have a1: "process_args ex_env
      [''jsonnetfmt'', ''--test'', ''good.jsonnet'', ''bad.jsonnet'', ''loose.jsonnet''] args_init
      = (Returns ARG_CONTINUE, ?s)"
    by (simp add: run_example)
  have a2: "fmtInPlace (config ?s) \<or> fmtTest (config ?s)" by simp
  have a3: "inputFiles (config ?s) = [''good.jsonnet''] @ ''bad.jsonnet'' # [''loose.jsonnet'']"
    by simp
  have a4: "fmt_loop ex_env (config ?s) (vm ?s) [''good.jsonnet''] (proc_init (config ?s) ex_fs)
      = (Continue, ?p)"
    by (simp add: run_example)
  have a5: "\<not> (fmtInPlace (config ?s) \<and> (''bad.jsonnet'' = ''-'' \<or> filenameIsCode (config ?s)))"
    by simp
  have a6: "read_input ex_env (filenameIsCode (config ?s)) ''bad.jsonnet'' (world ?p)
      = (Returns (True, ''bad.jsonnet'', ''{!}''), ex_fs)"
    by (simp add: run_example)
  have a7: "jsonnet_fmt_snippet ex_env (vm ?s) (c_str ''bad.jsonnet'') (c_str ''{!}'')
      = (''bad.jsonnet: syntax error'' @ [CHR 0x0A], 1)"
    by (simp add: run_example)
  have a8: "(1::int) \<noteq> 0" by simp
  show ?thesis
    using engine_error_aborts_batch [OF a1 a2 a3 a4 a5 a6 a7 a8]
    by (simp add: c_str_def)
qed


text \<open>
  Claim C10. In single-shot mode (neither \<open>fmtInPlace\<close> nor \<open>fmtTest\<close>), once the input
  is read and formatted without error, \<open>write_output_file\<close> is called with the output and
  \<open>config.outputFile\<close> whether or not the output equals the input: there is no comparison
  of output and input on this path.
\<close>

theorem single_shot_writes_unconditionally:
  assumes "process_args env argv args_init = (Returns ARG_CONTINUE, s)"
    and "\<not> fmtInPlace (config s)" and "\<not> fmtTest (config s)"
    and "read_input env (filenameIsCode (config s)) (inputFiles (config s) ! 0) w =
           (Returns (True, name, input), w1)"
    and "jsonnet_fmt_snippet env (vm s) (c_str name) (c_str input) = (out, 0)"
    and "write_output_file env out (outputFile (config s)) w1 = (r, w2)"
  shows "main env argv w =
    (case r of
       Returns successful \<Rightarrow>
         (Exited (if successful then 0 else 1), w2,
          [Make, ReadInput (filenameIsCode (config s)) (inputFiles (config s) ! 0),
           FmtSnippet (c_str name) (c_str input),
           WriteOutputFile out (outputFile (config s)), Realloc, Destroy])
     | Throws e \<Rightarrow>
         (Exited 1, w2,
          [Make, ReadInput (filenameIsCode (config s)) (inputFiles (config s) ! 0),
           FmtSnippet (c_str name) (c_str input),
           WriteOutputFile out (outputFile (config s)), handler e]))"
proof -
  have "fmt_single env (config s) (vm s) (inputFiles (config s) ! 0) (proc_init (config s) w) =
    (case r of
       Throws e \<Rightarrow>
         (Unwind e,
          (proc_init (config s) w)\<lparr>world := w2,
            events := [Make, ReadInput (filenameIsCode (config s)) (inputFiles (config s) ! 0),
                       FmtSnippet (c_str name) (c_str input),
                       WriteOutputFile out (outputFile (config s))]\<rparr>)
     | Returns successful \<Rightarrow>
         if successful then
           (Continue,
            (proc_init (config s) w)\<lparr>world := w2,
              events := [Make, ReadInput (filenameIsCode (config s)) (inputFiles (config s) ! 0),
                         FmtSnippet (c_str name) (c_str input),
                         WriteOutputFile out (outputFile (config s)), Realloc]\<rparr>)
         else
           (Finish EXIT_FAILURE,
            (proc_init (config s) w)\<lparr>world := w2,
              events := [Make, ReadInput (filenameIsCode (config s)) (inputFiles (config s) ! 0),
                         FmtSnippet (c_str name) (c_str input),
                         WriteOutputFile out (outputFile (config s)), Realloc, Destroy]\<rparr>))"
    using fmt_single_written [of env "config s" "inputFiles (config s) ! 0" "proc_init (config s) w"
        name input w1 "vm s" out r w2] assms(4-6)
    by (cases r) (simp_all add: proc_init_def)
  with try_block_single [OF assms(1-3), of w] show ?thesis
    by (cases r) (simp_all add: main_def EXIT_FAILURE_def EXIT_SUCCESS_def)
qed

theorem single_shot_writes_unconditionally_witness:
  "main ex_env [''jsonnetfmt'', ''good.jsonnet''] ex_fs =
     (Exited 0, ex_fs\<lparr>stdout := ''{a:1}''\<rparr>,
      [Make, ReadInput False ''good.jsonnet'', FmtSnippet ''good.jsonnet'' ''{a:1}'',
       WriteOutputFile ''{a:1}'' [], Realloc, Destroy])"
proof -
  let ?cfg = "\<lparr>inputFiles = [''good.jsonnet''], outputFile = [],
               filenameIsCode = False, fmtInPlace = False, fmtTest = False\<rparr>"
  let ?s = "\<lparr>config = ?cfg, vm = [], remaining_args = [''good.jsonnet''], trace = [Make]\<rparr>"
  have a1: "process_args ex_env [''jsonnetfmt'', ''good.jsonnet''] args_init
      = (Returns ARG_CONTINUE, ?s)"
    by (simp add: run_example)
  have a2: "\<not> fmtInPlace (config ?s)" and a3: "\<not> fmtTest (config ?s)" by simp_all
  have a4: "read_input ex_env (filenameIsCode (config ?s)) (inputFiles (config ?s) ! 0) ex_fs
      = (Returns (True, ''good.jsonnet'', ''{a:1}''), ex_fs)"
    by (simp add: run_example)
  have a5: "jsonnet_fmt_snippet ex_env (vm ?s) (c_str ''good.jsonnet'') (c_str ''{a:1}'')
      = (''{a:1}'', 0)"
    by (simp add: run_example)
  have a6: "write_output_file ex_env ''{a:1}'' (outputFile (config ?s)) ex_fs
      = (Returns True, ex_fs\<lparr>stdout := ''{a:1}''\<rparr>)"
    by (simp add: run_example)
  show ?thesis
    using single_shot_writes_unconditionally [OF a1 a2 a3 a4 a5 a6]
    by (simp add: c_str_def)
qed

subsection \<open>Invariants of the trace\<close>

text \<open>
  Argument processing only appends to the trace, and never a \<open>Destroy\<close>. An iteration of
  the loop over the inputs appends \<open>Destroy\<close> exactly when it returns from \<open>main\<close>, and
  then as the last event; in test mode it appends no \<open>WriteOutputFile\<close>.
\<close>

lemma scan_token_emits:
  assumes "scan_token env arg rest s = (st, s')"
  shows "\<exists>es. trace s' = trace s @ es \<and> Destroy \<notin> set es"
proof (cases "arg \<in> set recognized_flags")
  case True
  then show ?thesis
    using assms
    by (auto simp: recognized_flags_def scan_token_flag scan_token_value next_arg_def
                   fmt_set_def emit_def
             split: list.splits outcome.splits if_splits)
next
  case False
  then show ?thesis
    using assms
    by (cases "length arg > 1 \<and> arg ! 0 = CHR ''-''")
       (auto simp: scan_token_unrecognized scan_token_positional emit_def)
qed

lemma scan_emits:
  "scan env args s0 = (e, s) \<Longrightarrow> \<exists>es. trace s = trace s0 @ es \<and> Destroy \<notin> set es"
proof (induction env args s0 rule: scan.induct)
  case (1 env s0)
  then show ?case by simp
next
  case (2 env arg rest s0)
  obtain st s' where tok: "scan_token env arg rest s0 = (st, s')"
    by (cases "scan_token env arg rest s0")
  then obtain es1 where es1: "trace s' = trace s0 @ es1" "Destroy \<notin> set es1"
    using scan_token_emits by blast
  show ?case
  proof (cases st)
    case (Next rest')
    with tok "2.prems" have sc: "scan env rest' s' = (e, s)" by simp
    from "2.IH" [OF tok [symmetric] Next sc]
    obtain es2 where "trace s = trace s' @ es2" "Destroy \<notin> set es2"
      by blast
    with es1 have "trace s = trace s0 @ (es1 @ es2) \<and> Destroy \<notin> set (es1 @ es2)" by simp
    then show ?thesis by blast
  qed (use tok "2.prems" es1 in auto)
qed

lemma process_args_emits:
  assumes "process_args env argv s0 = (r, s)"
  shows "\<exists>es. trace s = trace s0 @ es \<and> Destroy \<notin> set es"
proof (cases "simplify_args env argv")
  case (Throws e)
  with assms show ?thesis by (simp add: process_args_def)
next
  case (Returns args)
  obtain e s1 where sc: "scan env args s0 = (e, s1)" by (cases "scan env args s0")
  then obtain es1 where es1: "trace s1 = trace s0 @ es1" "Destroy \<notin> set es1"
    using scan_emits by blast
  have "\<exists>es. trace (snd (post_scan s1)) = trace s1 @ es \<and> Destroy \<notin> set es"
    by (simp add: post_scan_def Let_def emit_def)
  then obtain es2 where es2: "trace (snd (post_scan s1)) = trace s1 @ es2" "Destroy \<notin> set es2"
    by blast
  from es1 es2 have both: "trace (snd (post_scan s1)) = trace s0 @ (es1 @ es2)"
    "Destroy \<notin> set (es1 @ es2)" by simp_all
  show ?thesis
  proof (cases e)
    case LoopEnd
    with assms Returns sc have "s = snd (post_scan s1)"
      by (auto simp: process_args_def split: prod.splits)
    with both show ?thesis by blast
  next
    case LoopBreak
    with assms Returns sc have "s = snd (post_scan s1)"
      by (auto simp: process_args_def split: prod.splits)
    with both show ?thesis by blast
  next
    case (LoopReturn st)
    with assms Returns sc have "s = s1" by (simp add: process_args_def)
    with es1 show ?thesis by blast
  next
    case (LoopLeave x)
    with assms Returns sc have "s = s1" by (simp add: process_args_def)
    with es1 show ?thesis by blast
  qed
qed

lemma fmt_entry_emits:
  assumes "fmt_entry env cfg v f p = (c, p')"
  shows "\<exists>es. events p' = events p @ es \<and>
    (case c of
       Continue \<Rightarrow> Destroy \<notin> set es
     | Finish n \<Rightarrow> es \<noteq> [] \<and> last es = Destroy \<and> count_list es Destroy = 1 \<and>
         (n = EXIT_FAILURE \<or> n = 2 \<and> fmtTest cfg)
     | Unwind e \<Rightarrow> Destroy \<notin> set es
     | AssertFailed \<Rightarrow> False) \<and>
    (fmtTest cfg \<longrightarrow> filter is_write es = [])"
  using assms
  by (auto simp: fmt_entry_def Let_def log_def
           split: prod.splits outcome.splits if_splits)

lemma fmt_loop_emits:
  "fmt_loop env cfg v fs p = (c, p') \<Longrightarrow>
   \<exists>es. events p' = events p @ es \<and>
    (case c of
       Continue \<Rightarrow> Destroy \<notin> set es
     | Finish n \<Rightarrow> es \<noteq> [] \<and> last es = Destroy \<and> count_list es Destroy = 1 \<and>
         (n = EXIT_FAILURE \<or> n = 2 \<and> fmtTest cfg)
     | Unwind e \<Rightarrow> Destroy \<notin> set es
     | AssertFailed \<Rightarrow> False) \<and>
    (fmtTest cfg \<longrightarrow> filter is_write es = [])"
proof (induction fs arbitrary: p)
  case Nil
  then show ?case by auto
next
  case (Cons f fs)
  obtain c1 p1 where e: "fmt_entry env cfg v f p = (c1, p1)"
    by (cases "fmt_entry env cfg v f p")
  from fmt_entry_emits [OF e] obtain es1 where es1: "events p1 = events p @ es1"
    and c1: "case c1 of
       Continue \<Rightarrow> Destroy \<notin> set es1
     | Finish n \<Rightarrow> es1 \<noteq> [] \<and> last es1 = Destroy \<and> count_list es1 Destroy = 1 \<and>
         (n = EXIT_FAILURE \<or> n = 2 \<and> fmtTest cfg)
     | Unwind e \<Rightarrow> Destroy \<notin> set es1
     | AssertFailed \<Rightarrow> False"
    and w1: "fmtTest cfg \<longrightarrow> filter is_write es1 = []"
    by blast
  show ?case
  proof (cases c1)
    case Continue
    with e Cons.prems have "fmt_loop env cfg v fs p1 = (c, p')" by simp
    from Cons.IH [OF this] obtain es2 where es2: "events p' = events p1 @ es2"
      and c2: "case c of
         Continue \<Rightarrow> Destroy \<notin> set es2
       | Finish n \<Rightarrow> es2 \<noteq> [] \<and> last es2 = Destroy \<and> count_list es2 Destroy = 1 \<and>
           (n = EXIT_FAILURE \<or> n = 2 \<and> fmtTest cfg)
       | Unwind e \<Rightarrow> Destroy \<notin> set es2
       | AssertFailed \<Rightarrow> False"
      and w2: "fmtTest cfg \<longrightarrow> filter is_write es2 = []"
      by blast
    from c1 Continue have d1: "Destroy \<notin> set es1" by simp
    then have n1: "count_list es1 Destroy = 0" by (simp add: count_list_0_iff)
    from es1 es2 have "events p' = events p @ (es1 @ es2)" by simp
    moreover from c2 d1 n1 have "case c of
         Continue \<Rightarrow> Destroy \<notin> set (es1 @ es2)
       | Finish n \<Rightarrow> es1 @ es2 \<noteq> [] \<and> last (es1 @ es2) = Destroy \<and>
           count_list (es1 @ es2) Destroy = 1 \<and> (n = EXIT_FAILURE \<or> n = 2 \<and> fmtTest cfg)
       | Unwind e \<Rightarrow> Destroy \<notin> set (es1 @ es2)
       | AssertFailed \<Rightarrow> False"
      by (cases c) auto
    moreover from w1 w2 have "fmtTest cfg \<longrightarrow> filter is_write (es1 @ es2) = []" by simp
    ultimately show ?thesis by blast
  next
    case (Finish n)
    with e Cons.prems have "c = c1" "p' = p1" by simp_all
    with es1 c1 w1 show ?thesis by blast
  next
    case (Unwind x)
    with e Cons.prems have "c = c1" "p' = p1" by simp_all
    with es1 c1 w1 show ?thesis by blast
  next
    case AssertFailed
    with c1 show ?thesis by simp
  qed
qed

lemma fmt_single_emits:
  assumes "fmt_single env cfg v f p = (c, p')"
  shows "\<exists>es. events p' = events p @ es \<and>
    (case c of
       Continue \<Rightarrow> Destroy \<notin> set es
     | Finish n \<Rightarrow> es \<noteq> [] \<and> last es = Destroy \<and> count_list es Destroy = 1
     | Unwind e \<Rightarrow> Destroy \<notin> set es
     | AssertFailed \<Rightarrow> False)"
  using assms
  by (auto simp: fmt_single_def Let_def log_def
           split: prod.splits outcome.splits if_splits)

text \<open>
  The loop in test mode, when no entry is rejected, every entry is readable and the engine
  reports no error.
\<close>

lemma test_loop:
  assumes "fmtTest cfg"
    and "fmtInPlace cfg \<longrightarrow> \<not> filenameIsCode cfg \<and> ''-'' \<notin> set fs"
    and "inputs_read env (filenameIsCode cfg) fs (world p) = Some obs"
    and "list_all (formats env v) obs"
  shows "fst (fmt_loop env cfg v fs p) =
           (if list_all (unchanged env v) obs then Continue else Finish 2)
       \<and> filter is_read (events (snd (fmt_loop env cfg v fs p))) =
           filter is_read (events p) @
           map (ReadInput (filenameIsCode cfg))
             (take (Suc (length (takeWhile (unchanged env v) obs))) fs)"
  using assms
proof (induction fs arbitrary: p obs)
  case Nil
  then show ?case by simp
next
  case (Cons f fs)
  from Cons.prems(3) obtain name input w1 obs'
    where rd: "read_input env (filenameIsCode cfg) f (world p) = (Returns (True, name, input), w1)"
      and rest: "inputs_read env (filenameIsCode cfg) fs w1 = Some obs'"
      and obs: "obs = (name, input) # obs'"
    by (auto split: prod.splits outcome.splits bool.splits option.splits)
  obtain out where fm: "jsonnet_fmt_snippet env v (c_str name) (c_str input) = (out, 0)"
    using Cons.prems(4) obs
    by (cases "jsonnet_fmt_snippet env v (c_str name) (c_str input)") (auto simp: formats_def)
  have acc: "\<not> (fmtInPlace cfg \<and> (f = ''-'' \<or> filenameIsCode cfg))"
    using Cons.prems(2) by auto
  note entry = fmt_entry_test [OF acc rd fm Cons.prems(1)]
  show ?case
  proof (cases "out = input")
    case True
    let ?p1 = "(if fmtInPlace cfg then p\<lparr>output_file := f\<rparr> else p)
          \<lparr>world := w1,
           events := events p @ [ReadInput (filenameIsCode cfg) f,
                                 FmtSnippet (c_str name) (c_str input), Realloc]\<rparr>"
    from True entry have step: "fmt_loop env cfg v (f # fs) p = fmt_loop env cfg v fs ?p1"
      by simp
    have un: "unchanged env v (name, input)"
      using True fm by (simp add: unchanged_def)
    have "fst (fmt_loop env cfg v fs ?p1) =
           (if list_all (unchanged env v) obs' then Continue else Finish 2)
       \<and> filter is_read (events (snd (fmt_loop env cfg v fs ?p1))) =
           filter is_read (events ?p1) @
           map (ReadInput (filenameIsCode cfg))
             (take (Suc (length (takeWhile (unchanged env v) obs'))) fs)"
      using Cons.prems(1,2,4) rest obs
      by (intro Cons.IH) auto
    with step un obs show ?thesis by simp
  next
    case False
    have un: "\<not> unchanged env v (name, input)"
      using False fm by (simp add: unchanged_def)
    from False entry un obs show ?thesis by simp
  qed
qed

text \<open>In in-place mode a batch that contains \<open>-\<close> never completes the loop.\<close>

lemma fmt_loop_reaches_stdin:
  "fmtInPlace cfg \<Longrightarrow> ''-'' \<in> set fs \<Longrightarrow> fst (fmt_loop env cfg v fs p) \<noteq> Continue"
proof (induction fs arbitrary: p)
  case Nil
  then show ?case by simp
next
  case (Cons f fs)
  show ?case
  proof (cases "f = ''-''")
    case True
    with Cons.prems(1) show ?thesis by (simp add: fmt_entry_reject_stdin)
  next
    case False
    with Cons.prems have "''-'' \<in> set fs" by simp
    with Cons.IH Cons.prems(1) have "\<And>p1. fst (fmt_loop env cfg v fs p1) \<noteq> Continue" by blast
    then show ?thesis
      by (cases "fmt_entry env cfg v f p") (auto split: ctl.splits)
  qed
qed

lemma handler_not_Destroy: "handler e \<noteq> Destroy"
  by (cases e) simp_all

lemma handler_not_write: "\<not> is_write (handler e)"
  by (cases e) simp_all

subsection \<open>The run as a whole\<close>

text \<open>
  The run as a whole, from the result of the loop; a loop that has ended does not look at
  later entries; the first event of an iteration is never a write.
\<close>

lemma main_after_loop:
  assumes "process_args env argv args_init = (Returns ARG_CONTINUE, s)"
    and "fmtInPlace (config s) \<or> fmtTest (config s)"
    and "fmt_loop env (config s) (vm s) (inputFiles (config s)) (proc_init (config s) w) = (c, q)"
  shows "main env argv w =
    (case c of
       Continue \<Rightarrow> (Exited 0, world q, events q @ [Destroy])
     | Finish n \<Rightarrow> (Exited n, world q, events q)
     | Unwind e \<Rightarrow> (Exited 1, world q, events q @ [handler e])
     | AssertFailed \<Rightarrow> (Aborted, world q, events q))"
  using try_block_loop [OF assms(1,2), of w] assms(3)
  by (cases c) (simp_all add: main_def EXIT_SUCCESS_def EXIT_FAILURE_def)

lemma fmt_loop_stops:
  "fmt_loop env cfg v pre p = (c, q) \<Longrightarrow> c \<noteq> Continue \<Longrightarrow>
   fmt_loop env cfg v (pre @ suf) p = (c, q)"
proof (induction pre arbitrary: p)
  case Nil
  then show ?case by simp
next
  case (Cons f pre)
  obtain c1 p1 where e: "fmt_entry env cfg v f p = (c1, p1)"
    by (cases "fmt_entry env cfg v f p")
  show ?case
  proof (cases c1)
    case Continue
    with e Cons.prems have "fmt_loop env cfg v pre p1 = (c, q)" by simp
    from Cons.IH [OF this Cons.prems(2)] e Continue show ?thesis by simp
  qed (use e Cons.prems in auto)
qed






subsection \<open>Test mode\<close>

text \<open>
  Claim C1, for the runs in which no in-place rejection applies. In test mode, when no
  in-place rejection applies (\<open>fmtInPlace\<close> is
  unset, or else \<open>filenameIsCode\<close> is unset and no entry is \<open>-\<close>), every input is
  readable and the engine formats every input without error: the process exits with status 0
  if the engine's output equals the input for every entry, and with status 2 otherwise,
  never with status 1; the entries read are those up to and including the first one whose
  output differs, so the first difference ends the run at once.
\<close>

theorem test_mode_exit_code:
  assumes "process_args env argv args_init = (Returns ARG_CONTINUE, s)"
    and "fmtTest (config s)"
    and "fmtInPlace (config s) \<longrightarrow>
           \<not> filenameIsCode (config s) \<and> ''-'' \<notin> set (inputFiles (config s))"
    and "inputs_read env (filenameIsCode (config s)) (inputFiles (config s)) w = Some obs"
    and "list_all (formats env (vm s)) obs"
  shows "fst (main env argv w) =
           (if list_all (unchanged env (vm s)) obs then Exited 0 else Exited 2)
       \<and> filter is_read (snd (snd (main env argv w))) =
           map (ReadInput (filenameIsCode (config s)))
             (take (Suc (length (takeWhile (unchanged env (vm s)) obs))) (inputFiles (config s)))"
proof -
  obtain c p where lp:
    "fmt_loop env (config s) (vm s) (inputFiles (config s)) (proc_init (config s) w) = (c, p)"
    by (cases "fmt_loop env (config s) (vm s) (inputFiles (config s)) (proc_init (config s) w)")
  from assms(4) have rd:
    "inputs_read env (filenameIsCode (config s)) (inputFiles (config s))
       (world (proc_init (config s) w)) = Some obs"
    by (simp add: proc_init_def)
  from test_loop [OF assms(2) assms(3) rd assms(5)] lp
  have c: "c = (if list_all (unchanged env (vm s)) obs then Continue else Finish 2)"
    and r: "filter is_read (events p) =
           map (ReadInput (filenameIsCode (config s)))
             (take (Suc (length (takeWhile (unchanged env (vm s)) obs))) (inputFiles (config s)))"
    by (simp_all add: proc_init_def)
  from assms(2) have mode: "fmtInPlace (config s) \<or> fmtTest (config s)" by simp
  from try_block_loop [OF assms(1) mode, of w] lp c r show ?thesis
    by (simp add: main_def EXIT_SUCCESS_def)
qed

theorem test_mode_exit_code_witness:
  "fst (main ex_env [''jsonnetfmt'', ''--test'', ''good.jsonnet'', ''loose.jsonnet'', ''good.jsonnet'']
          ex_fs) = Exited 2
   \<and> filter is_read
       (snd (snd (main ex_env
          [''jsonnetfmt'', ''--test'', ''good.jsonnet'', ''loose.jsonnet'', ''good.jsonnet''] ex_fs))) =
       [ReadInput False ''good.jsonnet'', ReadInput False ''loose.jsonnet'']
   \<and> fst (main ex_env [''jsonnetfmt'', ''--test'', ''good.jsonnet''] ex_fs) = Exited 0"
proof -
  let ?cfg = "\<lparr>inputFiles = [''good.jsonnet'', ''loose.jsonnet'', ''good.jsonnet''], outputFile = [],
               filenameIsCode = False, fmtInPlace = False, fmtTest = True\<rparr>"
  let ?s = "\<lparr>config = ?cfg, vm = [],
             remaining_args = [''good.jsonnet'', ''loose.jsonnet'', ''good.jsonnet''],
             trace = [Make]\<rparr>"
  let ?obs = "[(''good.jsonnet'', ''{a:1}''), (''loose.jsonnet'', ''{ a: 1 }''),
               (''good.jsonnet'', ''{a:1}'')]"
  have a1: "process_args ex_env
      [''jsonnetfmt'', ''--test'', ''good.jsonnet'', ''loose.jsonnet'', ''good.jsonnet''] args_init
      = (Returns ARG_CONTINUE, ?s)"
    by (simp add: run_example)
  have a2: "fmtTest (config ?s)" by simp
  have a3: "fmtInPlace (config ?s) \<longrightarrow>
           \<not> filenameIsCode (config ?s) \<and> ''-'' \<notin> set (inputFiles (config ?s))"
    by simp
  have a4: "inputs_read ex_env (filenameIsCode (config ?s)) (inputFiles (config ?s)) ex_fs
      = Some ?obs"
    by (simp add: run_example)
  have a5: "list_all (formats ex_env (vm ?s)) ?obs"
    by (simp add: formats_def run_example)
  let ?cfg' = "\<lparr>inputFiles = [''good.jsonnet''], outputFile = [],
               filenameIsCode = False, fmtInPlace = False, fmtTest = True\<rparr>"
  let ?s' = "\<lparr>config = ?cfg', vm = [], remaining_args = [''good.jsonnet''], trace = [Make]\<rparr>"
  have b1: "process_args ex_env [''jsonnetfmt'', ''--test'', ''good.jsonnet''] args_init
      = (Returns ARG_CONTINUE, ?s')"
    by (simp add: run_example)
  have b2: "fmtTest (config ?s')" by simp
  have b3: "fmtInPlace (config ?s') \<longrightarrow>
           \<not> filenameIsCode (config ?s') \<and> ''-'' \<notin> set (inputFiles (config ?s'))"
    by simp
  have b4: "inputs_read ex_env (filenameIsCode (config ?s')) (inputFiles (config ?s')) ex_fs
      = Some [(''good.jsonnet'', ''{a:1}'')]"
    by (simp add: run_example)
  have b5: "list_all (formats ex_env (vm ?s')) [(''good.jsonnet'', ''{a:1}'')]"
    by (simp add: formats_def run_example)
  show ?thesis
    using test_mode_exit_code [OF a1 a2 a3 a4 a5] test_mode_exit_code [OF b1 b2 b3 b4 b5]
    by (simp add: unchanged_def ex_env_def ex_fmt_snippet_def c_str_def)
qed

text \<open>
  With \<open>--in-place\<close> given as well, an inline snippet that is readable and already in
  canonical form does not make the run exit with status 0: the in-place rejection ends it
  with status 1.
\<close>

theorem test_mode_exit_code_counterexample:
  "process_args ex_env [''jsonnetfmt'', ''--test'', ''-i'', ''-e'', ''{a:1}''] args_init =
     (Returns ARG_CONTINUE,
      \<lparr>config = \<lparr>inputFiles = [''{a:1}''], outputFile = [],
                 filenameIsCode = True, fmtInPlace = True, fmtTest = True\<rparr>,
       vm = [], remaining_args = [''{a:1}''], trace = [Make]\<rparr>)
   \<and> inputs_read ex_env True [''{a:1}''] ex_fs = Some [(''<cmdline>'', ''{a:1}'')]
   \<and> jsonnet_fmt_snippet ex_env [] (c_str ''<cmdline>'') (c_str ''{a:1}'') = (''{a:1}'', 0)
   \<and> main ex_env [''jsonnetfmt'', ''--test'', ''-i'', ''-e'', ''{a:1}''] ex_fs =
     (Exited 1, ex_fs,
      [Make, Print Stderr (''ERROR: cannot use --in-place with --exec'' @ [CHR 0x0A]), Destroy])"
  by (simp add: run_example)

subsection \<open>In-place writes\<close>



subsection \<open>In-place rejections and the engine handle\<close>

text \<open>
  Claim C2, with the position of \<open>-\<close> among the inputs taken into account. For an
  argument vector that \<open>process_args\<close> accepts (\<open>ARG_CONTINUE\<close>) and whose configuration
  sets \<open>fmtInPlace\<close>: if it also sets \<open>filenameIsCode\<close>, or if the first entry of
  \<open>inputFiles\<close> is \<open>-\<close>, the process prints the error and exits with status 1 before
  any input is read or any output written; if \<open>-\<close> occurs anywhere among \<open>inputFiles\<close>,
  the process never exits with status 0 (its status is 1, or 2 when test mode finds a
  difference first); and for \<open>-\<close> at any position, the run is the loop over the entries
  before it, which are processed first, followed by the rejection of \<open>-\<close> with status 1 if
  the loop gets that far.
\<close>

theorem in_place_rejections:
  assumes "process_args env argv args_init = (Returns ARG_CONTINUE, s)"
    and "fmtInPlace (config s)"
  shows "(filenameIsCode (config s) \<or> hd (inputFiles (config s)) = ''-'' \<longrightarrow>
          main env argv w =
            (Exited 1, w,
             [Make,
              Print Stderr (''ERROR: cannot use --in-place with ''
                @ (if hd (inputFiles (config s)) = ''-'' then ''stdin'' else ''--exec'') @ endl),
              Destroy]))
       \<and> (''-'' \<in> set (inputFiles (config s)) \<longrightarrow>
          fst (main env argv w) = Exited 1
          \<or> fmtTest (config s) \<and> fst (main env argv w) = Exited 2)
       \<and> (inputFiles (config s) = pre @ ''-'' # post \<longrightarrow>
          main env argv w =
            (case fmt_loop env (config s) (vm s) pre (proc_init (config s) w) of
               (c, p) \<Rightarrow>
                 (case c of
                    Continue \<Rightarrow>
                      (Exited 1, world p,
                       events p @
                         [Print Stderr (''ERROR: cannot use --in-place with stdin'' @ endl),
                          Destroy])
                  | Finish n \<Rightarrow> (Exited n, world p, events p)
                  | Unwind e \<Rightarrow> (Exited 1, world p, events p @ [handler e])
                  | AssertFailed \<Rightarrow> (Aborted, world p, events p))))"
proof -
  from assms(2) have mode: "fmtInPlace (config s) \<or> fmtTest (config s)" by simp
  note tb = try_block_loop [OF assms(1) mode, of w]
  from process_args_CONTINUE(2) [OF assms(1)] obtain f rest
    where fs: "inputFiles (config s) = f # rest"
    by (cases "inputFiles (config s)") auto
  have first: "main env argv w =
            (Exited 1, w,
             [Make,
              Print Stderr (''ERROR: cannot use --in-place with ''
                @ (if hd (inputFiles (config s)) = ''-'' then ''stdin'' else ''--exec'') @ endl),
              Destroy])"
    if "filenameIsCode (config s) \<or> hd (inputFiles (config s)) = ''-''"
  proof (cases "f = ''-''")
    case True
    with tb fs assms(2) show ?thesis
      by (simp add: fmt_entry_reject_stdin main_def proc_init_def EXIT_FAILURE_def)
  next
    case False
    with that fs have "filenameIsCode (config s)" by simp
    with tb fs assms(2) False show ?thesis
      by (simp add: fmt_entry_reject_exec main_def proc_init_def EXIT_FAILURE_def)
  qed
  have later: "fst (main env argv w) = Exited 1
          \<or> fmtTest (config s) \<and> fst (main env argv w) = Exited 2"
    if "''-'' \<in> set (inputFiles (config s))"
  proof -
    obtain c p where lp:
      "fmt_loop env (config s) (vm s) (inputFiles (config s)) (proc_init (config s) w) = (c, p)"
      by (cases "fmt_loop env (config s) (vm s) (inputFiles (config s)) (proc_init (config s) w)")
    from fmt_loop_reaches_stdin [OF assms(2) that, of env "vm s" "proc_init (config s) w"] lp
    have nc: "c \<noteq> Continue" by simp
    from fmt_loop_emits [OF lp] nc tb lp show ?thesis
      by (cases c) (auto simp: main_def EXIT_FAILURE_def)
  qed
  have reached: "main env argv w =
            (case fmt_loop env (config s) (vm s) pre (proc_init (config s) w) of
               (c, p) \<Rightarrow>
                 (case c of
                    Continue \<Rightarrow>
                      (Exited 1, world p,
                       events p @
                         [Print Stderr (''ERROR: cannot use --in-place with stdin'' @ endl),
                          Destroy])
                  | Finish n \<Rightarrow> (Exited n, world p, events p)
                  | Unwind e \<Rightarrow> (Exited 1, world p, events p @ [handler e])
                  | AssertFailed \<Rightarrow> (Aborted, world p, events p)))"
    if files: "inputFiles (config s) = pre @ ''-'' # post"
  proof -
    obtain c p where lp:
      "fmt_loop env (config s) (vm s) pre (proc_init (config s) w) = (c, p)"
      by (cases "fmt_loop env (config s) (vm s) pre (proc_init (config s) w)")
    show ?thesis
    proof (cases "c = Continue")
      case True
      with lp fmt_loop_append [of env "config s" "vm s" pre "proc_init (config s) w" p
          "''-'' # post"] files assms(2)
      have "fmt_loop env (config s) (vm s) (inputFiles (config s)) (proc_init (config s) w) =
          (Finish EXIT_FAILURE,
           p\<lparr>output_file := ''-'',
             events := events p @
               [Print Stderr (''ERROR: cannot use --in-place with stdin'' @ endl), Destroy]\<rparr>)"
        by (simp add: fmt_entry_reject_stdin)
      from main_after_loop [OF assms(1) mode this] lp True show ?thesis
        by (simp add: EXIT_FAILURE_def)
    next
      case False
      from fmt_loop_stops [OF lp False, of "''-'' # post"] files
      have "fmt_loop env (config s) (vm s) (inputFiles (config s)) (proc_init (config s) w)
          = (c, p)"
        by simp
      from main_after_loop [OF assms(1) mode this] lp False show ?thesis
        by (cases c) simp_all
    qed
  qed
  from first later reached show ?thesis by blast
qed

theorem in_place_rejections_witness:
  "main ex_env [''jsonnetfmt'', ''-i'', ''-e'', ''{ a: 1 }''] ex_fs =
     (Exited 1, ex_fs,
      [Make, Print Stderr (''ERROR: cannot use --in-place with --exec'' @ [CHR 0x0A]), Destroy])
   \<and> main ex_env [''jsonnetfmt'', ''-i'', ''-'', ''loose.jsonnet''] ex_fs =
     (Exited 1, ex_fs,
      [Make, Print Stderr (''ERROR: cannot use --in-place with stdin'' @ [CHR 0x0A]), Destroy])
   \<and> fst (main ex_env [''jsonnetfmt'', ''-i'', ''loose.jsonnet'', ''-''] ex_fs) = Exited 1
   \<and> main ex_env [''jsonnetfmt'', ''-i'', ''good.jsonnet'', ''-'', ''loose.jsonnet''] ex_fs =
     (Exited 1, ex_fs,
      [Make, ReadInput False ''good.jsonnet'', FmtSnippet ''good.jsonnet'' ''{a:1}'',
       Print Stderr (''ERROR: cannot use --in-place with stdin'' @ [CHR 0x0A]), Destroy])"
proof -
  let ?s1 = "\<lparr>config = \<lparr>inputFiles = [''{ a: 1 }''], outputFile = [],
                 filenameIsCode = True, fmtInPlace = True, fmtTest = False\<rparr>,
       vm = [], remaining_args = [''{ a: 1 }''], trace = [Make]\<rparr>"
  let ?s2 = "\<lparr>config = \<lparr>inputFiles = [''-'', ''loose.jsonnet''], outputFile = [],
                 filenameIsCode = False, fmtInPlace = True, fmtTest = False\<rparr>,
       vm = [], remaining_args = [''-'', ''loose.jsonnet''], trace = [Make]\<rparr>"
  let ?s3 = "\<lparr>config = \<lparr>inputFiles = [''loose.jsonnet'', ''-''], outputFile = [],
                 filenameIsCode = False, fmtInPlace = True, fmtTest = False\<rparr>,
       vm = [], remaining_args = [''loose.jsonnet'', ''-''], trace = [Make]\<rparr>"
  have a1: "process_args ex_env [''jsonnetfmt'', ''-i'', ''-e'', ''{ a: 1 }''] args_init
      = (Returns ARG_CONTINUE, ?s1)"
    by (simp add: run_example)
  have a2: "process_args ex_env [''jsonnetfmt'', ''-i'', ''-'', ''loose.jsonnet''] args_init
      = (Returns ARG_CONTINUE, ?s2)"
    by (simp add: run_example)
  have a3: "process_args ex_env [''jsonnetfmt'', ''-i'', ''loose.jsonnet'', ''-''] args_init
      = (Returns ARG_CONTINUE, ?s3)"
    by (simp add: run_example)
  let ?s4 = "\<lparr>config = \<lparr>inputFiles = [''good.jsonnet'', ''-'', ''loose.jsonnet''], outputFile = [],
                 filenameIsCode = False, fmtInPlace = True, fmtTest = False\<rparr>,
       vm = [], remaining_args = [''good.jsonnet'', ''-'', ''loose.jsonnet''], trace = [Make]\<rparr>"
  have a4: "process_args ex_env [''jsonnetfmt'', ''-i'', ''good.jsonnet'', ''-'', ''loose.jsonnet'']
      args_init = (Returns ARG_CONTINUE, ?s4)"
    by (simp add: run_example)
  have b1: "fmtInPlace (config ?s1)" and b2: "fmtInPlace (config ?s2)"
    and b3: "fmtInPlace (config ?s3)" and b4: "fmtInPlace (config ?s4)" by simp_all
  have c4: "fmt_loop ex_env (config ?s4) (vm ?s4) [''good.jsonnet''] (proc_init (config ?s4) ex_fs) =
      (Continue,
       \<lparr>world = ex_fs,
        events = [Make, ReadInput False ''good.jsonnet'', FmtSnippet ''good.jsonnet'' ''{a:1}''],
        output_file = ''good.jsonnet''\<rparr>)"
    by (simp add: run_example)
  have r1: "main ex_env [''jsonnetfmt'', ''-i'', ''-e'', ''{ a: 1 }''] ex_fs =
     (Exited 1, ex_fs,
      [Make, Print Stderr (''ERROR: cannot use --in-place with --exec'' @ [CHR 0x0A]), Destroy])"
    using in_place_rejections [OF a1 b1, where w = ex_fs and pre = "[]" and post = "[]",
        THEN conjunct1]
    by (simp add: endl_def)
  have r2: "main ex_env [''jsonnetfmt'', ''-i'', ''-'', ''loose.jsonnet''] ex_fs =
     (Exited 1, ex_fs,
      [Make, Print Stderr (''ERROR: cannot use --in-place with stdin'' @ [CHR 0x0A]), Destroy])"
    using in_place_rejections [OF a2 b2, where w = ex_fs and pre = "[]" and post = "[]",
        THEN conjunct1]
    by (simp add: endl_def)
  have r3: "fst (main ex_env [''jsonnetfmt'', ''-i'', ''loose.jsonnet'', ''-''] ex_fs) = Exited 1"
    using in_place_rejections [OF a3 b3, where w = ex_fs and pre = "[]" and post = "[]",
        THEN conjunct2, THEN conjunct1]
    by simp
  have r4: "main ex_env [''jsonnetfmt'', ''-i'', ''good.jsonnet'', ''-'', ''loose.jsonnet''] ex_fs =
     (Exited 1, ex_fs,
      [Make, ReadInput False ''good.jsonnet'', FmtSnippet ''good.jsonnet'' ''{a:1}'',
       Print Stderr (''ERROR: cannot use --in-place with stdin'' @ [CHR 0x0A]), Destroy])"
    using in_place_rejections [OF a4 b4, where w = ex_fs and pre = "[''good.jsonnet'']"
        and post = "[''loose.jsonnet'']", THEN conjunct2, THEN conjunct2] c4
    by (simp add: endl_def)
  from r1 r2 r3 r4 show ?thesis by simp
qed

text \<open>
  The rejection of \<open>-\<close> happens when the loop arrives at it: an entry before it has been
  read, formatted and written back by then.
\<close>

theorem in_place_rejections_counterexample:
  "process_args ex_env [''jsonnetfmt'', ''-i'', ''loose.jsonnet'', ''-''] args_init =
     (Returns ARG_CONTINUE,
      \<lparr>config = \<lparr>inputFiles = [''loose.jsonnet'', ''-''], outputFile = [],
                 filenameIsCode = False, fmtInPlace = True, fmtTest = False\<rparr>,
       vm = [], remaining_args = [''loose.jsonnet'', ''-''], trace = [Make]\<rparr>)
   \<and> main ex_env [''jsonnetfmt'', ''-i'', ''loose.jsonnet'', ''-''] ex_fs =
     (Exited 1,
      \<lparr>files = [(''loose.jsonnet'', ''{a:1}''), (''good.jsonnet'', ''{a:1}''),
                (''bad.jsonnet'', ''{!}''), (''locked.jsonnet'', ''{ b: 2 }'')],
       readonly = [''locked.jsonnet''], stdin = ''{ c: 3 }'', stdout = []\<rparr>,
      [Make, ReadInput False ''loose.jsonnet'', FmtSnippet ''loose.jsonnet'' ''{ a: 1 }'',
       WriteOutputFile ''{a:1}'' ''loose.jsonnet'', Realloc,
       Print Stderr (''ERROR: cannot use --in-place with stdin'' @ [CHR 0x0A]), Destroy])"
  by (simp add: run_example)

text \<open>
  Claim C9. When both \<open>fmtInPlace\<close> and \<open>fmtTest\<close> are set, the process never calls
  \<open>write_output_file\<close>; at every entry, whatever the state of the run, \<open>-\<close> is rejected
  and, if \<open>filenameIsCode\<close> is set, so is any entry; and an entry that is read and
  formatted is only compared with its input: equal goes on to the next entry, different exits
  with status 2.
\<close>

theorem test_precedes_in_place:
  assumes "process_args env argv args_init = (Returns ARG_CONTINUE, s)"
    and "fmtInPlace (config s)" and "fmtTest (config s)"
  shows "filter is_write (snd (snd (main env argv w))) = []
       \<and> fmt_entry env (config s) (vm s) ''-'' p =
           (Finish EXIT_FAILURE,
            p\<lparr>output_file := ''-'',
              events := events p @
                [Print Stderr (''ERROR: cannot use --in-place with stdin'' @ endl), Destroy]\<rparr>)
       \<and> (filenameIsCode (config s) \<and> f \<noteq> ''-'' \<longrightarrow>
           fmt_entry env (config s) (vm s) f p =
             (Finish EXIT_FAILURE,
              p\<lparr>output_file := f,
                events := events p @
                  [Print Stderr (''ERROR: cannot use --in-place with --exec'' @ endl), Destroy]\<rparr>))
       \<and> (\<not> filenameIsCode (config s) \<and> f \<noteq> ''-''
           \<and> read_input env False f (world p) = (Returns (True, name, input), w1)
           \<and> jsonnet_fmt_snippet env (vm s) (c_str name) (c_str input) = (out, 0) \<longrightarrow>
           fmt_entry env (config s) (vm s) f p =
             (if out = input then
                (Continue,
                 p\<lparr>output_file := f, world := w1,
                   events := events p @ [ReadInput False f,
                                         FmtSnippet (c_str name) (c_str input), Realloc]\<rparr>)
              else
                (Finish 2,
                 p\<lparr>output_file := f, world := w1,
                   events := events p @ [ReadInput False f,
                                         FmtSnippet (c_str name) (c_str input),
                                         Realloc, Destroy]\<rparr>)))"
proof -
  from assms(2) have mode: "fmtInPlace (config s) \<or> fmtTest (config s)" by simp
  obtain c p' where lp:
    "fmt_loop env (config s) (vm s) (inputFiles (config s)) (proc_init (config s) w) = (c, p')"
    by (cases "fmt_loop env (config s) (vm s) (inputFiles (config s)) (proc_init (config s) w)")
  from fmt_loop_emits [OF lp] assms(3) obtain es
    where es: "events p' = events (proc_init (config s) w) @ es" "filter is_write es = []"
    by blast
  then have "filter is_write (events p') = []" by (simp add: proc_init_def)
  with try_block_loop [OF assms(1) mode, of w] lp
  have nowrite: "filter is_write (snd (snd (main env argv w))) = []"
    by (cases c) (simp_all add: main_def handler_not_write)
  have stdin: "fmt_entry env (config s) (vm s) ''-'' p =
           (Finish EXIT_FAILURE,
            p\<lparr>output_file := ''-'',
              events := events p @
                [Print Stderr (''ERROR: cannot use --in-place with stdin'' @ endl), Destroy]\<rparr>)"
    using assms(2) by (rule fmt_entry_reject_stdin)
  have exec: "fmt_entry env (config s) (vm s) f p =
             (Finish EXIT_FAILURE,
              p\<lparr>output_file := f,
                events := events p @
                  [Print Stderr (''ERROR: cannot use --in-place with --exec'' @ endl), Destroy]\<rparr>)"
    if "filenameIsCode (config s)" "f \<noteq> ''-''"
    using assms(2) that by (rule fmt_entry_reject_exec)
  have cmp: "fmt_entry env (config s) (vm s) f p =
             (if out = input then
                (Continue,
                 p\<lparr>output_file := f, world := w1,
                   events := events p @ [ReadInput False f,
                                         FmtSnippet (c_str name) (c_str input), Realloc]\<rparr>)
              else
                (Finish 2,
                 p\<lparr>output_file := f, world := w1,
                   events := events p @ [ReadInput False f,
                                         FmtSnippet (c_str name) (c_str input),
                                         Realloc, Destroy]\<rparr>))"
    if "\<not> filenameIsCode (config s)" "f \<noteq> ''-''"
      "read_input env False f (world p) = (Returns (True, name, input), w1)"
      "jsonnet_fmt_snippet env (vm s) (c_str name) (c_str input) = (out, 0)"
  proof -
    from that(1,2) have acc: "\<not> (fmtInPlace (config s) \<and> (f = ''-'' \<or> filenameIsCode (config s)))"
      by simp
    from that(1,3) have rd:
      "read_input env (filenameIsCode (config s)) f (world p) = (Returns (True, name, input), w1)"
      by simp
    from fmt_entry_test [OF acc rd that(4) assms(3)] assms(2) that(1) show ?thesis by simp
  qed
  from nowrite stdin exec cmp show ?thesis by blast
qed

theorem test_precedes_in_place_witness:
  "main ex_env [''jsonnetfmt'', ''-i'', ''--test'', ''good.jsonnet'', ''loose.jsonnet'', ''-''] ex_fs =
     (Exited 2, ex_fs,
      [Make, ReadInput False ''good.jsonnet'', FmtSnippet ''good.jsonnet'' ''{a:1}'', Realloc,
       ReadInput False ''loose.jsonnet'', FmtSnippet ''loose.jsonnet'' ''{ a: 1 }'', Realloc,
       Destroy])
   \<and> filter is_write (snd (snd (main ex_env
        [''jsonnetfmt'', ''-i'', ''--test'', ''good.jsonnet'', ''loose.jsonnet'', ''-''] ex_fs))) = []
   \<and> fmt_entry ex_env
        \<lparr>inputFiles = [''good.jsonnet'', ''loose.jsonnet'', ''-''], outputFile = [],
         filenameIsCode = False, fmtInPlace = True, fmtTest = True\<rparr> [] ''loose.jsonnet''
        \<lparr>world = ex_fs, events = [Make], output_file = []\<rparr> =
       (Finish 2,
        \<lparr>world = ex_fs,
         events = [Make, ReadInput False ''loose.jsonnet'',
                   FmtSnippet ''loose.jsonnet'' ''{ a: 1 }'', Realloc, Destroy],
         output_file = ''loose.jsonnet''\<rparr>)"
proof -
  let ?cfg = "\<lparr>inputFiles = [''good.jsonnet'', ''loose.jsonnet'', ''-''], outputFile = [],
         filenameIsCode = False, fmtInPlace = True, fmtTest = True\<rparr>"
  let ?s = "\<lparr>config = ?cfg, vm = [],
             remaining_args = [''good.jsonnet'', ''loose.jsonnet'', ''-''], trace = [Make]\<rparr>"
  let ?p = "\<lparr>world = ex_fs, events = [Make], output_file = []\<rparr>"
  have a1: "process_args ex_env
      [''jsonnetfmt'', ''-i'', ''--test'', ''good.jsonnet'', ''loose.jsonnet'', ''-''] args_init
      = (Returns ARG_CONTINUE, ?s)"
    by (simp add: run_example)
  have a2: "fmtInPlace (config ?s)" and a3: "fmtTest (config ?s)" by simp_all
  have m: "main ex_env
      [''jsonnetfmt'', ''-i'', ''--test'', ''good.jsonnet'', ''loose.jsonnet'', ''-''] ex_fs =
     (Exited 2, ex_fs,
      [Make, ReadInput False ''good.jsonnet'', FmtSnippet ''good.jsonnet'' ''{a:1}'', Realloc,
       ReadInput False ''loose.jsonnet'', FmtSnippet ''loose.jsonnet'' ''{ a: 1 }'', Realloc,
       Destroy])"
    by (simp add: run_example)
  have r: "read_input ex_env False ''loose.jsonnet'' (world ?p)
      = (Returns (True, ''loose.jsonnet'', ''{ a: 1 }''), ex_fs)"
    by (simp add: run_example)
  have f: "jsonnet_fmt_snippet ex_env (vm ?s) (c_str ''loose.jsonnet'') (c_str ''{ a: 1 }'')
      = (''{a:1}'', 0)"
    by (simp add: run_example)
  show ?thesis
    using test_precedes_in_place [OF a1 a2 a3, of ex_fs ?p "''loose.jsonnet''"
        "''loose.jsonnet''" "''{ a: 1 }''" ex_fs "''{a:1}''"] m r f
    by (simp add: c_str_def)
qed

text \<open>
  Claim C3, with exceptional unwinding set apart. On every path on which \<open>main\<close> returns from inside its \<open>try\<close>
  block (success, failed argument processing, fatal error in the loop or in the single-shot
  branch), \<open>jsonnet_destroy\<close> is called exactly once, as the last action before the exit
  status is returned. When a helper throws, the handlers print their diagnostic, \<open>main\<close>
  returns \<open>EXIT_FAILURE\<close> and \<open>jsonnet_destroy\<close> is not called. No assertion of \<open>main\<close>
  fails.
\<close>

theorem engine_released_once:
  "case try_block env argv w of
     (c, w', es) \<Rightarrow>
       (case c of
          Finish n \<Rightarrow>
            main env argv w = (Exited n, w', es) \<and> count_list es Destroy = 1 \<and> last es = Destroy
        | Unwind e \<Rightarrow>
            main env argv w = (Exited EXIT_FAILURE, w', es @ [handler e])
            \<and> count_list (es @ [handler e]) Destroy = 0
        | Continue \<Rightarrow> False
        | AssertFailed \<Rightarrow> False)"
proof -
  obtain r s where pa: "process_args env argv args_init = (r, s)"
    by (cases "process_args env argv args_init")
  from process_args_emits [OF pa] obtain es0
    where es0: "trace s = [Make] @ es0" "Destroy \<notin> set es0"
    by (auto simp: args_init_def)
  then have n0: "count_list (trace s) Destroy = 0" by (simp add: count_list_0_iff)
  show ?thesis
  proof (cases r)
    case (Throws e)
    with pa n0 show ?thesis
      by (simp add: try_block_def main_def handler_not_Destroy)
  next
    case (Returns st)
    show ?thesis
    proof (cases "st = ARG_CONTINUE")
      case False
      with pa Returns n0 show ?thesis
        by (simp add: try_block_def main_def)
    next
      case True
      with pa Returns have pc: "process_args env argv args_init = (Returns ARG_CONTINUE, s)"
        by simp
      show ?thesis
      proof (cases "fmtInPlace (config s) \<or> fmtTest (config s)")
        case True
        obtain c p where lp:
          "fmt_loop env (config s) (vm s) (inputFiles (config s)) (proc_init (config s) w) = (c, p)"
          by (cases "fmt_loop env (config s) (vm s) (inputFiles (config s))
                       (proc_init (config s) w)")
        from fmt_loop_emits [OF lp] try_block_loop [OF pc True, of w] lp show ?thesis
          by (cases c)
             (auto simp: main_def proc_init_def handler_not_Destroy count_list_0_iff)
      next
        case False
        then have nf: "\<not> fmtInPlace (config s)" "\<not> fmtTest (config s)" by simp_all
        obtain c p where lp:
          "fmt_single env (config s) (vm s) (inputFiles (config s) ! 0) (proc_init (config s) w)
             = (c, p)"
          by (cases "fmt_single env (config s) (vm s) (inputFiles (config s) ! 0)
                       (proc_init (config s) w)")
        from fmt_single_emits [OF lp] try_block_single [OF pc nf, of w] lp show ?thesis
          by (cases c)
             (auto simp: main_def proc_init_def handler_not_Destroy count_list_0_iff)
      qed
    qed
  qed
qed

theorem engine_released_once_witness:
  "main ex_env [''jsonnetfmt'', ''good.jsonnet''] ex_fs =
     (Exited 0, ex_fs\<lparr>stdout := ''{a:1}''\<rparr>,
      [Make, ReadInput False ''good.jsonnet'', FmtSnippet ''good.jsonnet'' ''{a:1}'',
       WriteOutputFile ''{a:1}'' [], Realloc, Destroy])
   \<and> count_list
       [Make, ReadInput False ''good.jsonnet'', FmtSnippet ''good.jsonnet'' ''{a:1}'',
        WriteOutputFile ''{a:1}'' [], Realloc, Destroy] Destroy = 1"
proof -
  have t: "try_block ex_env [''jsonnetfmt'', ''good.jsonnet''] ex_fs =
     (Finish 0, ex_fs\<lparr>stdout := ''{a:1}''\<rparr>,
      [Make, ReadInput False ''good.jsonnet'', FmtSnippet ''good.jsonnet'' ''{a:1}'',
       WriteOutputFile ''{a:1}'' [], Realloc, Destroy])"
    by (simp add: run_example)
  show ?thesis
    using engine_released_once [of ex_env "[''jsonnetfmt'', ''good.jsonnet'']" ex_fs]
    unfolding t by simp
qed

text \<open>
  Reading the input runs out of memory: the handler for \<open>std::bad_alloc\<close> prints its
  message and the process exits with status 1 without a call of \<open>jsonnet_destroy\<close>.
\<close>

theorem engine_released_counterexample:
  "main ex_env_oom [''jsonnetfmt'', ''good.jsonnet''] ex_fs =
     (Exited 1, ex_fs,
      [Make, ReadInput False ''good.jsonnet'',
       Print Stderr (''Internal out-of-memory error (please report this)'' @ [CHR 0x0A])])
   \<and> count_list (snd (snd (main ex_env_oom [''jsonnetfmt'', ''good.jsonnet''] ex_fs))) Destroy = 0"
  by (simp add: run_example)

end
